theory Spec2Isabelle
  imports Main
begin

section \<open>Values, panics and errors\<close>

text \<open>
  Go's \<open>interface{}\<close> holds data and function values alike. The switches of the
  program only look at the dynamic type of a function value, so a function value is its
  dynamic type and a reference to its code; what the code does when it is called is
  looked up in a table (\<open>env\<close> below).
  \<^item> \<open>T_K0\<close> is \<open>func([]interface{})\<close>, \<open>T_K1\<close> is \<open>func([]interface{}) interface{}\<close>,
    \<open>T_KN\<close> is \<open>func([]interface{}) []interface{}\<close>;
  \<^item> \<open>T_Cb0\<close> is \<open>func(error)\<close>, \<open>T_Cb1\<close> is \<open>func(interface{}, error)\<close>,
    \<open>T_CbN\<close> is \<open>func([]interface{}, error)\<close>;
  \<^item> \<open>T_Other\<close> is any other function type.
\<close>

datatype ftype = T_K0 | T_K1 | T_KN | T_Cb0 | T_Cb1 | T_CbN | T_Other

datatype val = VNil | VInt int | VStr string | VSlice "val list" | VFunc ftype nat

text \<open>The values a goroutine panics with: those of the program, those of the Go
  runtime, and whatever user code raises (\<open>PanicVal\<close>).\<close>

datatype panic =
    PanicVal val
  | InvalidDefinition val
  | AlreadyRegistered val
  | CallbackNotFound
  | InvalidCallback
  | Bug
  | InvalidFacility string
  | SendOnClosedChannel
  | CloseOfClosedChannel
  | NilDereference
  | TypeAssertion
  | MakeChanSize
  | NegativeWaitGroup

text \<open>\<open>Errorf_v r\<close> is \<open>fmt.Errorf("%v", r)\<close>, \<open>Errorf_v_stack r\<close> is
  \<open>fmt.Errorf("%v: %s", r, stack)\<close>, \<open>RuntimeError r\<close> is a recovered runtime panic
  read as an error (\<open>r.(error)\<close>).\<close>

datatype error =
    Errorf_v panic
  | Errorf_v_stack panic
  | RuntimeError panic
  | ServerNotAttached
  | FunctionNotRegistered val
  | ReturnTypeMismatch val
  | ChanrpcChannelFull
  | TooManyCalls
  | ChanrpcServerClosed

text \<open>User code returns or panics.\<close>

datatype 'a outcome = Return 'a | Panic panic

text \<open>A function of the program, run on a state, returns, panics, blocks for ever on a
  channel or a wait group, or ends the process (\<open>log.Fatal\<close>). Go mutates in place, so
  each result carries the state reached.\<close>

datatype ('a, 's) res = Done 'a 's | Panicked panic 's | Blocked 's | Exited 's

text \<open>Sequencing: the second function runs only if the first one returns.\<close>

definition and_then :: "('a, 's) res \<Rightarrow> ('a \<Rightarrow> 's \<Rightarrow> ('b, 's) res) \<Rightarrow> ('b, 's) res" where
  "and_then m k =
     (case m of
        Done x s \<Rightarrow> k x s
      | Panicked p s \<Rightarrow> Panicked p s
      | Blocked s \<Rightarrow> Blocked s
      | Exited s \<Rightarrow> Exited s)"

text \<open>Reading a result: whether the function returned, what it returned, and the state
  it reached.\<close>

fun returned :: "('a, 's) res \<Rightarrow> bool" where
  "returned (Done x s) = True"
| "returned r = False"

fun result_of :: "('a, 's) res \<Rightarrow> 'a option" where
  "result_of (Done x s) = Some x"
| "result_of r = None"

fun state_of :: "('a, 's) res \<Rightarrow> 's" where
  "state_of (Done x s) = s"
| "state_of (Panicked p s) = s"
| "state_of (Blocked s) = s"
| "state_of (Exited s) = s"

section \<open>Channels\<close>

text \<open>A channel is its buffer, the buffer's capacity and the closed flag. A send is ready
  when the buffer has room; a parked receiver is not modelled, so an unbuffered channel
  accepts nothing here.\<close>

record 'a chan =
  chan_buf :: "'a list"
  chan_cap :: nat
  chan_closed :: bool

definition make_chan :: "nat \<Rightarrow> 'a chan" where
  "make_chan n = \<lparr>chan_buf = [], chan_cap = n, chan_closed = False\<rparr>"

datatype 'a sent = Sent "'a chan" | WouldBlock | SendPanics

definition send :: "'a chan \<Rightarrow> 'a \<Rightarrow> 'a sent" where
  "send ch x =
     (if chan_closed ch then SendPanics
      else if length (chan_buf ch) < chan_cap ch then Sent (ch\<lparr>chan_buf := chan_buf ch @ [x]\<rparr>)
      else WouldBlock)"

section \<open>chanrpc: the data\<close>

record CallInfo =
  ci_f :: val
  ci_args :: "val list"
  ci_chanRet :: "nat option"
  ci_cb :: val

record RetInfo =
  ri_ret :: val
  ri_err :: "error option"
  ri_cb :: val

record Server =
  s_functions :: "val \<rightharpoonup> val"
  ChanCall :: "CallInfo chan"

record Client =
  c_s :: "nat option"
  chanSyncRet :: nat
  ChanAsynRet :: nat
  pendingAsynCall :: int

section \<open>chanrpc: the server\<close>

definition NewServer :: "int \<Rightarrow> Server outcome" where
  "NewServer l =
     (if l < 0 then Panic MakeChanSize
      else Return \<lparr>s_functions = Map.empty, ChanCall = make_chan (nat l)\<rparr>)"

fun is_function :: "val \<Rightarrow> bool" where
  "is_function (VFunc T_K0 k) = True"
| "is_function (VFunc T_K1 k) = True"
| "is_function (VFunc T_KN k) = True"
| "is_function v = False"

definition Register :: "val \<Rightarrow> val \<Rightarrow> Server \<Rightarrow> (unit, Server) res" where
  "Register fid fn s =
     (if \<not> is_function fn then Panicked (InvalidDefinition fid) s
      else if s_functions s fid \<noteq> None then Panicked (AlreadyRegistered fid) s
      else Done () (s\<lparr>s_functions := (s_functions s)(fid \<mapsto> fn)\<rparr>))"

text \<open>The servers and the reply channels live in a store, since a \<open>CallInfo\<close> in a
  server's queue and the client that posted it share the reply channel, and a client
  points to its server. \<open>next_chan\<close> is the next free reply-channel address. The log
  is what the program writes with \<open>log.Error\<close>, and which callbacks it has called.\<close>

datatype event =
    LogError error
  | LogPanic panic bool
  | Invoked val "val list" "error option"
  | External string

datatype Command =
    CommandHelp
  | CommandCPUProf
  | CommandProf
  | ExternalCommand string string nat

record world =
  servers :: "nat \<Rightarrow> Server"
  chans :: "nat \<Rightarrow> RetInfo chan"
  next_chan :: nat
  next_server :: nat
  commands :: "Command list"
  log :: "event list"

text \<open>What user code does: the handler behind a function value, called on an argument
  vector, and the callback behind a callback value, called on its value arguments and its
  error. \<open>LenStackBuf\<close> is the configured length of the stack buffer.\<close>

record env =
  handler :: "nat \<Rightarrow> val list \<Rightarrow> val outcome"
  callback :: "nat \<Rightarrow> val list \<Rightarrow> error option \<Rightarrow> unit outcome"
  LenStackBuf :: int

definition set_chan :: "nat \<Rightarrow> RetInfo chan \<Rightarrow> world \<Rightarrow> world" where
  "set_chan r ch w = w\<lparr>chans := (chans w)(r := ch)\<rparr>"

definition set_ChanCall :: "nat \<Rightarrow> CallInfo chan \<Rightarrow> world \<Rightarrow> world" where
  "set_ChanCall sid ch w = w\<lparr>servers := (servers w)(sid := (servers w sid)\<lparr>ChanCall := ch\<rparr>)\<rparr>"

definition ret :: "CallInfo \<Rightarrow> RetInfo \<Rightarrow> world \<Rightarrow> (error option, world) res" where
  "ret ci ri w =
     (case ci_chanRet ci of
        None \<Rightarrow> Done None w
      | Some r \<Rightarrow>
          (case send (chans w r) (ri\<lparr>ri_cb := ci_cb ci\<rparr>) of
             Sent ch \<Rightarrow> Done None (set_chan r ch w)
           | SendPanics \<Rightarrow> Done (Some (RuntimeError SendOnClosedChannel)) w
           | WouldBlock \<Rightarrow> Blocked w))"

definition exec_recover :: "env \<Rightarrow> CallInfo \<Rightarrow> panic \<Rightarrow> world \<Rightarrow> (error option, world) res" where
  "exec_recover e ci r w =
     (let err = (if 0 < LenStackBuf e then Errorf_v_stack r else Errorf_v r)
      in and_then (ret ci \<lparr>ri_ret = VNil, ri_err = Some (Errorf_v r), ri_cb = VNil\<rparr> w)
           (\<lambda>x. Done (Some err)))"

definition exec :: "env \<Rightarrow> CallInfo \<Rightarrow> world \<Rightarrow> (error option, world) res" where
  "exec e ci w =
     (case ci_f ci of
        VFunc T_K0 k \<Rightarrow>
          (case handler e k (ci_args ci) of
             Return v \<Rightarrow> ret ci \<lparr>ri_ret = VNil, ri_err = None, ri_cb = VNil\<rparr> w
           | Panic r \<Rightarrow> exec_recover e ci r w)
      | VFunc T_K1 k \<Rightarrow>
          (case handler e k (ci_args ci) of
             Return v \<Rightarrow> ret ci \<lparr>ri_ret = v, ri_err = None, ri_cb = VNil\<rparr> w
           | Panic r \<Rightarrow> exec_recover e ci r w)
      | VFunc T_KN k \<Rightarrow>
          (case handler e k (ci_args ci) of
             Return v \<Rightarrow> ret ci \<lparr>ri_ret = v, ri_err = None, ri_cb = VNil\<rparr> w
           | Panic r \<Rightarrow> exec_recover e ci r w)
      | _ \<Rightarrow> exec_recover e ci Bug w)"

definition Exec :: "env \<Rightarrow> CallInfo \<Rightarrow> world \<Rightarrow> (unit, world) res" where
  "Exec e ci w =
     and_then (exec e ci w)
       (\<lambda>err w'. case err of
          None \<Rightarrow> Done () w'
        | Some x \<Rightarrow> Done () (w'\<lparr>log := log w' @ [LogError x]\<rparr>))"

text \<open>\<open>Server.Go\<close>: the send may block; a panic of the send is swallowed.\<close>

definition Go :: "nat \<Rightarrow> val \<Rightarrow> val list \<Rightarrow> world \<Rightarrow> (unit, world) res" where
  "Go sid fid as w =
     (case s_functions (servers w sid) fid of
        None \<Rightarrow> Done () w
      | Some fn \<Rightarrow>
          (case send (ChanCall (servers w sid))
                  \<lparr>ci_f = fn, ci_args = as, ci_chanRet = None, ci_cb = VNil\<rparr> of
             Sent ch \<Rightarrow> Done () (set_ChanCall sid ch w)
           | SendPanics \<Rightarrow> Done () w
           | WouldBlock \<Rightarrow> Blocked w))"

text \<open>\<open>Server.Close\<close>: close the call queue, then receive every call still in it and
  answer it.\<close>

fun Close_range :: "nat \<Rightarrow> CallInfo list \<Rightarrow> world \<Rightarrow> (unit, world) res" where
  "Close_range sid [] w = Done () w"
| "Close_range sid (ci # cis) w =
     and_then
       (ret ci \<lparr>ri_ret = VNil, ri_err = Some ChanrpcServerClosed, ri_cb = VNil\<rparr>
          (set_ChanCall sid ((ChanCall (servers w sid))\<lparr>chan_buf := cis\<rparr>) w))
       (\<lambda>x. Close_range sid cis)"

definition Close :: "nat \<Rightarrow> world \<Rightarrow> (unit, world) res" where
  "Close sid w =
     (let q = ChanCall (servers w sid)
      in if chan_closed q then Panicked CloseOfClosedChannel w
         else Close_range sid (chan_buf q) (set_ChanCall sid (q\<lparr>chan_closed := True\<rparr>) w))"

section \<open>chanrpc: the client\<close>

definition NewClient :: "int \<Rightarrow> world \<Rightarrow> (Client, world) res" where
  "NewClient l w =
     (if l < 0 then Panicked MakeChanSize w
      else Done \<lparr>c_s = None, chanSyncRet = next_chan w, ChanAsynRet = Suc (next_chan w),
                  pendingAsynCall = 0\<rparr>
             (w\<lparr>chans := (chans w)(next_chan w := make_chan 1,
                                    Suc (next_chan w) := make_chan (nat l)),
                next_chan := next_chan w + 2\<rparr>))"

definition Attach :: "nat \<Rightarrow> Client \<Rightarrow> Client" where
  "Attach sid c = c\<lparr>c_s := Some sid\<rparr>"

definition Open :: "nat \<Rightarrow> int \<Rightarrow> world \<Rightarrow> (Client, world) res" where
  "Open sid l w =
     and_then (NewClient l w) (\<lambda>c. Done (Attach sid c))"

text \<open>\<open>Client.call\<close>: every panic of the send is recovered and returned as the error.\<close>

definition call :: "Client \<Rightarrow> CallInfo \<Rightarrow> bool \<Rightarrow> world \<Rightarrow> (error option, world) res" where
  "call c ci block w =
     (case c_s c of
        None \<Rightarrow> Done (Some (RuntimeError NilDereference)) w
      | Some sid \<Rightarrow>
          (case send (ChanCall (servers w sid)) ci of
             Sent ch \<Rightarrow> Done None (set_ChanCall sid ch w)
           | SendPanics \<Rightarrow> Done (Some (RuntimeError SendOnClosedChannel)) w
           | WouldBlock \<Rightarrow> if block then Blocked w else Done (Some ChanrpcChannelFull) w))"

fun has_ftype :: "ftype \<Rightarrow> val \<Rightarrow> bool" where
  "has_ftype t (VFunc t' k) = (t = t')"
| "has_ftype t v = False"

definition Client_f :: "Client \<Rightarrow> val \<Rightarrow> int \<Rightarrow> world \<Rightarrow> (val \<times> error option) outcome" where
  "Client_f c fid n w =
     (case c_s c of
        None \<Rightarrow> Return (VNil, Some ServerNotAttached)
      | Some sid \<Rightarrow>
          (let fn = (case s_functions (servers w sid) fid of None \<Rightarrow> VNil | Some x \<Rightarrow> x)
           in if fn = VNil then Return (VNil, Some (FunctionNotRegistered fid))
              else if n = 0 then
                Return (fn, if has_ftype T_K0 fn then None else Some (ReturnTypeMismatch fid))
              else if n = 1 then
                Return (fn, if has_ftype T_K1 fn then None else Some (ReturnTypeMismatch fid))
              else if n = 2 then
                Return (fn, if has_ftype T_KN fn then None else Some (ReturnTypeMismatch fid))
              else Panic Bug))"

text \<open>A receive: the first element, or the zero value of a closed and empty channel, or
  nothing yet.\<close>

datatype 'a received = Received 'a "'a chan" | RecvZero | RecvWouldBlock

definition recv :: "'a chan \<Rightarrow> 'a received" where
  "recv ch =
     (case chan_buf ch of
        x # xs \<Rightarrow> Received x (ch\<lparr>chan_buf := xs\<rparr>)
      | [] \<Rightarrow> if chan_closed ch then RecvZero else RecvWouldBlock)"

text \<open>The synchronous calls post the call and then wait at \<open><-c.chanSyncRet\<close>. While
  the caller waits the other goroutines run: \<open>sched\<close> is what they do to the store
  before the caller looks at its reply channel. A \<open>nil\<close> received from a closed reply
  channel is dereferenced. \<open>sync_call\<close> is the part that \<open>Call0\<close>, \<open>Call1\<close> and
  \<open>CallN\<close> repeat word for word: the blocking \<open>call\<close> and the receive.\<close>

definition await_reply ::
  "(world \<Rightarrow> (unit, world) res) \<Rightarrow> Client \<Rightarrow> world \<Rightarrow> (RetInfo, world) res" where
  "await_reply sched c w =
     and_then (sched w)
       (\<lambda>x w'. case recv (chans w' (chanSyncRet c)) of
          Received ri ch \<Rightarrow> Done ri (set_chan (chanSyncRet c) ch w')
        | RecvZero \<Rightarrow> Panicked NilDereference w'
        | RecvWouldBlock \<Rightarrow> Blocked w')"

definition sync_call ::
  "(world \<Rightarrow> (unit, world) res) \<Rightarrow> Client \<Rightarrow> val \<Rightarrow> val list \<Rightarrow> world
     \<Rightarrow> (RetInfo option \<times> error option, world) res" where
  "sync_call sched c fn as w =
     and_then
       (call c \<lparr>ci_f = fn, ci_args = as, ci_chanRet = Some (chanSyncRet c), ci_cb = VNil\<rparr>
          True w)
       (\<lambda>err w'. case err of
          Some x \<Rightarrow> Done (None, Some x) w'
        | None \<Rightarrow> and_then (await_reply sched c w') (\<lambda>ri. Done (Some ri, ri_err ri)))"

definition Client_Call0 ::
  "(world \<Rightarrow> (unit, world) res) \<Rightarrow> Client \<Rightarrow> val \<Rightarrow> val list \<Rightarrow> world
     \<Rightarrow> (error option, world) res" where
  "Client_Call0 sched c fid as w =
     (case Client_f c fid 0 w of
        Panic p \<Rightarrow> Panicked p w
      | Return (fn, Some err) \<Rightarrow> Done (Some err) w
      | Return (fn, None) \<Rightarrow>
          and_then (sync_call sched c fn as w) (\<lambda>(ri, err). Done err))"

definition Client_Call1 ::
  "(world \<Rightarrow> (unit, world) res) \<Rightarrow> Client \<Rightarrow> val \<Rightarrow> val list \<Rightarrow> world
     \<Rightarrow> (val \<times> error option, world) res" where
  "Client_Call1 sched c fid as w =
     (case Client_f c fid 1 w of
        Panic p \<Rightarrow> Panicked p w
      | Return (fn, Some err) \<Rightarrow> Done (VNil, Some err) w
      | Return (fn, None) \<Rightarrow>
          and_then (sync_call sched c fn as w)
            (\<lambda>(ri, err). case ri of
               None \<Rightarrow> Done (VNil, err)
             | Some x \<Rightarrow> Done (ri_ret x, err)))"

fun assert_slice :: "val \<Rightarrow> val list outcome" where
  "assert_slice VNil = Return []"
| "assert_slice (VSlice xs) = Return xs"
| "assert_slice v = Panic TypeAssertion"

definition Client_CallN ::
  "(world \<Rightarrow> (unit, world) res) \<Rightarrow> Client \<Rightarrow> val \<Rightarrow> val list \<Rightarrow> world
     \<Rightarrow> (val list \<times> error option, world) res" where
  "Client_CallN sched c fid as w =
     (case Client_f c fid 2 w of
        Panic p \<Rightarrow> Panicked p w
      | Return (fn, Some err) \<Rightarrow> Done ([], Some err) w
      | Return (fn, None) \<Rightarrow>
          and_then (sync_call sched c fn as w)
            (\<lambda>(ri, err) w'. case ri of
               None \<Rightarrow> Done ([], err) w'
             | Some x \<Rightarrow>
                 (case assert_slice (ri_ret x) of
                    Return xs \<Rightarrow> Done (xs, err) w'
                  | Panic p \<Rightarrow> Panicked p w')))"

text \<open>The server's own synchronous entry points go through a client made for the call.\<close>

definition Server_Call0 ::
  "(world \<Rightarrow> (unit, world) res) \<Rightarrow> nat \<Rightarrow> val \<Rightarrow> val list \<Rightarrow> world
     \<Rightarrow> (error option, world) res" where
  "Server_Call0 sched sid fid as w =
     and_then (Open sid 0 w) (\<lambda>c. Client_Call0 sched c fid as)"

definition Server_Call1 ::
  "(world \<Rightarrow> (unit, world) res) \<Rightarrow> nat \<Rightarrow> val \<Rightarrow> val list \<Rightarrow> world
     \<Rightarrow> (val \<times> error option, world) res" where
  "Server_Call1 sched sid fid as w =
     and_then (Open sid 0 w) (\<lambda>c. Client_Call1 sched c fid as)"

definition Server_CallN ::
  "(world \<Rightarrow> (unit, world) res) \<Rightarrow> nat \<Rightarrow> val \<Rightarrow> val list \<Rightarrow> world
     \<Rightarrow> (val list \<times> error option, world) res" where
  "Server_CallN sched sid fid as w =
     and_then (Open sid 0 w) (\<lambda>c. Client_CallN sched c fid as)"

text \<open>\<open>execCb\<close> calls the callback and recovers whatever it panics with.\<close>

definition execCb_recover :: "env \<Rightarrow> panic \<Rightarrow> world \<Rightarrow> world" where
  "execCb_recover e r w = w\<lparr>log := log w @ [LogPanic r (0 < LenStackBuf e)]\<rparr>"

definition invoke :: "env \<Rightarrow> val \<Rightarrow> nat \<Rightarrow> val list \<Rightarrow> error option \<Rightarrow> world \<Rightarrow> world" where
  "invoke e cb k vs err w =
     (let w' = w\<lparr>log := log w @ [Invoked cb vs err]\<rparr>
      in case callback e k vs err of
           Return x \<Rightarrow> w'
         | Panic r \<Rightarrow> execCb_recover e r w')"

definition execCb :: "env \<Rightarrow> RetInfo \<Rightarrow> world \<Rightarrow> world" where
  "execCb e ri w =
     (case ri_cb ri of
        VFunc T_Cb0 k \<Rightarrow> invoke e (ri_cb ri) k [] (ri_err ri) w
      | VFunc T_Cb1 k \<Rightarrow> invoke e (ri_cb ri) k [ri_ret ri] (ri_err ri) w
      | VFunc T_CbN k \<Rightarrow>
          (case assert_slice (ri_ret ri) of
             Return xs \<Rightarrow> invoke e (ri_cb ri) k [VSlice xs] (ri_err ri) w
           | Panic r \<Rightarrow> execCb_recover e r w)
      | _ \<Rightarrow> execCb_recover e Bug w)"

definition Cb :: "env \<Rightarrow> RetInfo \<Rightarrow> Client \<times> world \<Rightarrow> Client \<times> world" where
  "Cb e ri cw =
     (case cw of (c, w) \<Rightarrow> (c\<lparr>pendingAsynCall := pendingAsynCall c - 1\<rparr>, execCb e ri w))"

text \<open>The send of \<open>asynCall\<close> on the client's own reply queue is not recovered.\<close>

definition push_reply :: "Client \<Rightarrow> RetInfo \<Rightarrow> world \<Rightarrow> (unit, world) res" where
  "push_reply c ri w =
     (case send (chans w (ChanAsynRet c)) ri of
        Sent ch \<Rightarrow> Done () (set_chan (ChanAsynRet c) ch w)
      | SendPanics \<Rightarrow> Panicked SendOnClosedChannel w
      | WouldBlock \<Rightarrow> Blocked w)"

definition asynCall ::
  "Client \<Rightarrow> val \<Rightarrow> val list \<Rightarrow> val \<Rightarrow> int \<Rightarrow> world \<Rightarrow> (unit, world) res" where
  "asynCall c fid as cb n w =
     (case Client_f c fid n w of
        Panic p \<Rightarrow> Panicked p w
      | Return (fn, Some err) \<Rightarrow> push_reply c \<lparr>ri_ret = VNil, ri_err = Some err, ri_cb = cb\<rparr> w
      | Return (fn, None) \<Rightarrow>
          and_then
            (call c \<lparr>ci_f = fn, ci_args = as, ci_chanRet = Some (ChanAsynRet c), ci_cb = cb\<rparr>
               False w)
            (\<lambda>err w'. case err of
               Some x \<Rightarrow> push_reply c \<lparr>ri_ret = VNil, ri_err = Some x, ri_cb = cb\<rparr> w'
             | None \<Rightarrow> Done () w'))"

fun callback_kind :: "val \<Rightarrow> int option" where
  "callback_kind (VFunc T_Cb0 k) = Some 0"
| "callback_kind (VFunc T_Cb1 k) = Some 1"
| "callback_kind (VFunc T_CbN k) = Some 2"
| "callback_kind v = None"

definition on_client :: "Client \<Rightarrow> ('a, world) res \<Rightarrow> ('a, Client \<times> world) res" where
  "on_client c m =
     (case m of
        Done x w \<Rightarrow> Done x (c, w)
      | Panicked p w \<Rightarrow> Panicked p (c, w)
      | Blocked w \<Rightarrow> Blocked (c, w)
      | Exited w \<Rightarrow> Exited (c, w))"

definition AsynCall ::
  "env \<Rightarrow> val \<Rightarrow> val list \<Rightarrow> Client \<times> world \<Rightarrow> (unit, Client \<times> world) res" where
  "AsynCall e fid xs cw =
     (case cw of (c, w) \<Rightarrow>
        if length xs < 1 then Panicked CallbackNotFound (c, w)
        else
          (let as = butlast xs; cb = last xs
           in case callback_kind cb of
                None \<Rightarrow> Panicked InvalidCallback (c, w)
              | Some n \<Rightarrow>
                  if pendingAsynCall c \<ge> int (chan_cap (chans w (ChanAsynRet c))) then
                    Done () (c, execCb e \<lparr>ri_ret = VNil, ri_err = Some TooManyCalls, ri_cb = cb\<rparr> w)
                  else
                    and_then (on_client c (asynCall c fid as cb n w))
                      (\<lambda>x (c', w'). Done ()
                         (c'\<lparr>pendingAsynCall := pendingAsynCall c' + 1\<rparr>, w'))))"

text \<open>The consumer of the client's reply queue: \<open>Client.Close\<close> and the event loop of
  the skeleton both receive a reply and hand it to \<open>Cb\<close>. A \<open>nil\<close> reply, received
  from a closed and empty queue, is dereferenced inside \<open>execCb\<close>, which recovers.\<close>

definition recv_Cb :: "env \<Rightarrow> Client \<times> world \<Rightarrow> (unit, Client \<times> world) res" where
  "recv_Cb e cw =
     (case cw of (c, w) \<Rightarrow>
        (case recv (chans w (ChanAsynRet c)) of
           Received ri ch \<Rightarrow> Done () (Cb e ri (c, set_chan (ChanAsynRet c) ch w))
         | RecvZero \<Rightarrow>
             Done () (c\<lparr>pendingAsynCall := pendingAsynCall c - 1\<rparr>,
                      execCb_recover e NilDereference w)
         | RecvWouldBlock \<Rightarrow> Blocked (c, w)))"

definition Idle :: "Client \<Rightarrow> bool" where
  "Idle c = (pendingAsynCall c = 0)"

text \<open>The consumer of a server's call queue: the event loop of the skeleton receives a
  call and hands it to \<open>Exec\<close>; \<open>serve\<close> does so for every call in the queue. A
  \<open>nil\<close> call, received from a closed and empty queue, is dereferenced in \<open>exec\<close> and
  again in the \<open>ret\<close> of its recovery, which nothing recovers.\<close>

definition recv_Exec :: "env \<Rightarrow> nat \<Rightarrow> world \<Rightarrow> (unit, world) res" where
  "recv_Exec e sid w =
     (case recv (ChanCall (servers w sid)) of
        Received ci ch \<Rightarrow> Exec e ci (set_ChanCall sid ch w)
      | RecvZero \<Rightarrow> Panicked NilDereference w
      | RecvWouldBlock \<Rightarrow> Blocked w)"

fun serve_calls :: "env \<Rightarrow> nat \<Rightarrow> CallInfo list \<Rightarrow> world \<Rightarrow> (unit, world) res" where
  "serve_calls e sid [] w = Done () w"
| "serve_calls e sid (ci # cis) w =
     and_then (Exec e ci (set_ChanCall sid ((ChanCall (servers w sid))\<lparr>chan_buf := cis\<rparr>) w))
       (\<lambda>x. serve_calls e sid cis)"

definition serve :: "env \<Rightarrow> nat \<Rightarrow> world \<Rightarrow> (unit, world) res" where
  "serve e sid w = serve_calls e sid (chan_buf (ChanCall (servers w sid))) w"

text \<open>The store after a client has posted a synchronous call for \<open>fn\<close>: the call sits
  at the end of the server's queue, and its reply channel is the client's.\<close>

definition post :: "Client \<Rightarrow> val \<Rightarrow> val list \<Rightarrow> world \<Rightarrow> world" where
  "post c fn as w =
     (case c_s c of
        None \<Rightarrow> w
      | Some sid \<Rightarrow>
          set_ChanCall sid
            ((ChanCall (servers w sid))
               \<lparr>chan_buf := chan_buf (ChanCall (servers w sid)) @
                  [\<lparr>ci_f = fn, ci_args = as, ci_chanRet = Some (chanSyncRet c), ci_cb = VNil\<rparr>]\<rparr>)
            w)"





text \<open>A client and the servers at work: the client makes asynchronous calls; the consumer
  of its reply queue hands replies to \<open>Cb\<close>; the consumer of a server's call queue
  executes a call; a server is closed. A run stops at the first operation that does not
  return.\<close>

datatype op = Op_AsynCall val "val list" | Op_Cb | Op_Exec nat | Op_Close nat

definition step :: "env \<Rightarrow> op \<Rightarrow> Client \<times> world \<Rightarrow> (unit, Client \<times> world) res" where
  "step e x cw =
     (case x of
        Op_AsynCall fid xs \<Rightarrow> AsynCall e fid xs cw
      | Op_Cb \<Rightarrow> recv_Cb e cw
      | Op_Exec sid \<Rightarrow> on_client (fst cw) (recv_Exec e sid (snd cw))
      | Op_Close sid \<Rightarrow> on_client (fst cw) (Close sid (snd cw)))"




section \<open>The console's command table\<close>

fun command_name :: "Command \<Rightarrow> string" where
  "command_name CommandHelp = ''help''"
| "command_name CommandCPUProf = ''cpuprof''"
| "command_name CommandProf = ''prof''"
| "command_name (ExternalCommand n h sid) = n"

definition initial_commands :: "Command list" where
  "initial_commands = [CommandHelp, CommandCPUProf, CommandProf]"

definition on_server :: "nat \<Rightarrow> world \<Rightarrow> ('a, Server) res \<Rightarrow> ('a, world) res" where
  "on_server sid w m =
     (case m of
        Done x s \<Rightarrow> Done x (w\<lparr>servers := (servers w)(sid := s)\<rparr>)
      | Panicked p s \<Rightarrow> Panicked p (w\<lparr>servers := (servers w)(sid := s)\<rparr>)
      | Blocked s \<Rightarrow> Blocked (w\<lparr>servers := (servers w)(sid := s)\<rparr>)
      | Exited s \<Rightarrow> Exited (w\<lparr>servers := (servers w)(sid := s)\<rparr>))"

text \<open>\<open>console.Register\<close>: \<open>log.Fatal\<close> ends the process when the name is taken. On a
  \<open>nil\<close> server, \<open>Register\<close> still looks at the function first and dereferences the
  server after.\<close>

definition console_Register ::
  "string \<Rightarrow> string \<Rightarrow> val \<Rightarrow> nat option \<Rightarrow> world \<Rightarrow> (unit, world) res" where
  "console_Register name help fn srv w =
     (if list_ex (\<lambda>c. command_name c = name) (commands w) then Exited w
      else
        (case srv of
           None \<Rightarrow>
             if \<not> is_function fn then Panicked (InvalidDefinition (VStr name)) w
             else Panicked NilDereference w
         | Some sid \<Rightarrow>
             and_then (on_server sid w (Register (VStr name) fn (servers w sid)))
               (\<lambda>x w'. Done () (w'\<lparr>commands := commands w' @ [ExternalCommand name help sid]\<rparr>))))"

section \<open>The skeleton\<close>

text \<open>The goroutine pool and the timer dispatcher belong to packages that are not part of
  this development: what their functions do is a parameter, and the skeleton only records
  whether \<open>Init\<close> has created them.\<close>

record ext =
  g_New :: "int \<Rightarrow> world \<Rightarrow> world"
  timer_NewDispatcher :: "int \<Rightarrow> world \<Rightarrow> world"
  dispatcher_AfterFunc :: "int \<Rightarrow> val \<Rightarrow> world \<Rightarrow> (unit, world) res"
  dispatcher_CronFunc :: "val \<Rightarrow> val \<Rightarrow> world \<Rightarrow> (unit, world) res"
  g_Go :: "val \<Rightarrow> val \<Rightarrow> world \<Rightarrow> (unit, world) res"
  g_NewLinearContext :: "world \<Rightarrow> (unit, world) res"

record Skeleton =
  GoLen :: int
  TimerDispatcherLen :: int
  AsynCallLen :: int
  ChanRPCServer :: "nat option"
  sk_g :: bool
  sk_dispatcher :: bool
  sk_client :: "Client option"
  sk_server :: "nat option"
  sk_commandServer :: "nat option"

text \<open>A server, once made, lives in the store at the next free address.\<close>

definition new_server :: "int \<Rightarrow> world \<Rightarrow> (nat, world) res" where
  "new_server l w =
     (case NewServer l of
        Panic p \<Rightarrow> Panicked p w
      | Return s \<Rightarrow>
          Done (next_server w)
            (w\<lparr>servers := (servers w)(next_server w := s), next_server := next_server w + 1\<rparr>))"

definition on_skeleton :: "Skeleton \<Rightarrow> ('a, world) res \<Rightarrow> ('a, Skeleton \<times> world) res" where
  "on_skeleton s m =
     (case m of
        Done x w \<Rightarrow> Done x (s, w)
      | Panicked p w \<Rightarrow> Panicked p (s, w)
      | Blocked w \<Rightarrow> Blocked (s, w)
      | Exited w \<Rightarrow> Exited (s, w))"

definition Skeleton_Init :: "ext \<Rightarrow> Skeleton \<times> world \<Rightarrow> (unit, Skeleton \<times> world) res" where
  "Skeleton_Init x sw =
     (case sw of (s0, w0) \<Rightarrow>
        (let s1 = (if GoLen s0 \<le> 0 then s0\<lparr>GoLen := 0\<rparr> else s0);
             s2 = (if TimerDispatcherLen s1 \<le> 0 then s1\<lparr>TimerDispatcherLen := 0\<rparr> else s1);
             s3 = (if AsynCallLen s2 \<le> 0 then s2\<lparr>AsynCallLen := 0\<rparr> else s2);
             w1 = g_New x (GoLen s3) w0;
             w2 = timer_NewDispatcher x (TimerDispatcherLen s3) w1
         in and_then (on_skeleton (s3\<lparr>sk_g := True, sk_dispatcher := True\<rparr>)
                        (NewClient (AsynCallLen s3) w2))
              (\<lambda>c (s4, w3).
                 (let s5 = s4\<lparr>sk_client := Some c, sk_server := ChanRPCServer s4\<rparr>
                  in and_then
                       (case sk_server s5 of
                          Some sid \<Rightarrow> Done () (s5, w3)
                        | None \<Rightarrow>
                            and_then (on_skeleton s5 (new_server 0 w3))
                              (\<lambda>sid (s, w). Done () (s\<lparr>sk_server := Some sid\<rparr>, w)))
                       (\<lambda>u (s6, w4).
                          and_then (on_skeleton s6 (new_server 0 w4))
                            (\<lambda>cid (s, w). Done () (s\<lparr>sk_commandServer := Some cid\<rparr>, w)))))))"

definition Skeleton_AfterFunc ::
  "ext \<Rightarrow> int \<Rightarrow> val \<Rightarrow> Skeleton \<times> world \<Rightarrow> (unit, Skeleton \<times> world) res" where
  "Skeleton_AfterFunc x d cb sw =
     (case sw of (s, w) \<Rightarrow>
        if TimerDispatcherLen s = 0 then Panicked (InvalidFacility ''invalid TimerDispatcherLen'') (s, w)
        else on_skeleton s (dispatcher_AfterFunc x d cb w))"

definition Skeleton_CronFunc ::
  "ext \<Rightarrow> val \<Rightarrow> val \<Rightarrow> Skeleton \<times> world \<Rightarrow> (unit, Skeleton \<times> world) res" where
  "Skeleton_CronFunc x cronExpr cb sw =
     (case sw of (s, w) \<Rightarrow>
        if TimerDispatcherLen s = 0 then Panicked (InvalidFacility ''invalid TimerDispatcherLen'') (s, w)
        else on_skeleton s (dispatcher_CronFunc x cronExpr cb w))"

definition Skeleton_Go ::
  "ext \<Rightarrow> val \<Rightarrow> val \<Rightarrow> Skeleton \<times> world \<Rightarrow> (unit, Skeleton \<times> world) res" where
  "Skeleton_Go x fn cb sw =
     (case sw of (s, w) \<Rightarrow>
        if GoLen s = 0 then Panicked (InvalidFacility ''invalid GoLen'') (s, w)
        else on_skeleton s (g_Go x fn cb w))"

definition Skeleton_NewLinearContext ::
  "ext \<Rightarrow> Skeleton \<times> world \<Rightarrow> (unit, Skeleton \<times> world) res" where
  "Skeleton_NewLinearContext x sw =
     (case sw of (s, w) \<Rightarrow>
        if GoLen s = 0 then Panicked (InvalidFacility ''invalid GoLen'') (s, w)
        else on_skeleton s (g_NewLinearContext x w))"

definition Skeleton_AsynCall ::
  "env \<Rightarrow> nat \<Rightarrow> val \<Rightarrow> val list \<Rightarrow> Skeleton \<times> world \<Rightarrow> (unit, Skeleton \<times> world) res" where
  "Skeleton_AsynCall e sid fid xs sw =
     (case sw of (s, w) \<Rightarrow>
        if AsynCallLen s = 0 then Panicked (InvalidFacility ''invalid AsynCallLen'') (s, w)
        else
          (case sk_client s of
             None \<Rightarrow> Panicked NilDereference (s, w)
           | Some c \<Rightarrow>
               (case AsynCall e fid xs (Attach sid c, w) of
                  Done u (c', w') \<Rightarrow> Done () (s\<lparr>sk_client := Some c'\<rparr>, w')
                | Panicked p (c', w') \<Rightarrow> Panicked p (s\<lparr>sk_client := Some c'\<rparr>, w')
                | Blocked (c', w') \<Rightarrow> Blocked (s\<lparr>sk_client := Some c'\<rparr>, w')
                | Exited (c', w') \<Rightarrow> Exited (s\<lparr>sk_client := Some c'\<rparr>, w'))))"

definition Skeleton_RegisterChanRPC ::
  "val \<Rightarrow> val \<Rightarrow> Skeleton \<times> world \<Rightarrow> (unit, Skeleton \<times> world) res" where
  "Skeleton_RegisterChanRPC fid fn sw =
     (case sw of (s, w) \<Rightarrow>
        if ChanRPCServer s = None then Panicked (InvalidFacility ''invalid ChanRPCServer'') (s, w)
        else
          (case sk_server s of
             None \<Rightarrow>
               if \<not> is_function fn then Panicked (InvalidDefinition fid) (s, w)
               else Panicked NilDereference (s, w)
           | Some sid \<Rightarrow> on_skeleton s (on_server sid w (Register fid fn (servers w sid)))))"

definition Skeleton_RegisterCommand ::
  "string \<Rightarrow> string \<Rightarrow> val \<Rightarrow> Skeleton \<times> world \<Rightarrow> (unit, Skeleton \<times> world) res" where
  "Skeleton_RegisterCommand name help fn sw =
     (case sw of (s, w) \<Rightarrow> on_skeleton s (console_Register name help fn (sk_commandServer s) w))"

section \<open>The module manager\<close>

text \<open>A module is what its three methods do. \<open>OnInit\<close> and \<open>OnDestroy\<close> return or
  panic. \<open>Run\<close> is long-lived: it returns once it has received from its close signal
  (\<open>ReturnsOnClose\<close>, the contract of the interface), or returns without reading the
  signal (\<open>ReturnsAtOnce\<close>), or never returns (\<open>NeverReturns\<close>).\<close>

datatype run_kind = ReturnsOnClose | ReturnsAtOnce | NeverReturns

record Module =
  OnInit :: "unit outcome"
  OnDestroy :: "unit outcome"
  Run :: run_kind

text \<open>\<open>wg\<close> is the counter of the wait group; \<open>running\<close> is the number of goroutines
  that are inside \<open>run(m)\<close>.\<close>

record module =
  mi :: Module
  closeSig :: "bool chan"
  wg :: int
  running :: nat

datatype mevent =
    OnInit_called nat
  | Run_started nat
  | Run_returned nat
  | OnDestroy_called nat
  | Logged panic bool

record manager =
  mods :: "module list"
  trace :: "mevent list"

definition module_Register :: "Module \<Rightarrow> manager \<Rightarrow> manager" where
  "module_Register x st =
     st\<lparr>mods := mods st @ [\<lparr>mi = x, closeSig = make_chan 1, wg = 0, running = 0\<rparr>]\<rparr>"

fun Init_OnInit :: "nat list \<Rightarrow> manager \<Rightarrow> (unit, manager) res" where
  "Init_OnInit [] st = Done () st"
| "Init_OnInit (i # is) st =
     (let st' = st\<lparr>trace := trace st @ [OnInit_called i]\<rparr>
      in case OnInit (mi (mods st ! i)) of
           Return x \<Rightarrow> Init_OnInit is st'
         | Panic p \<Rightarrow> Panicked p st')"

fun Init_go :: "nat list \<Rightarrow> manager \<Rightarrow> manager" where
  "Init_go [] st = st"
| "Init_go (i # is) st =
     (let m = mods st ! i
      in Init_go is
           (st\<lparr>mods := (mods st)[i := m\<lparr>wg := wg m + 1, running := running m + 1\<rparr>],
               trace := trace st @ [Run_started i]\<rparr>))"

definition Init :: "manager \<Rightarrow> (unit, manager) res" where
  "Init st =
     and_then (Init_OnInit [0..<length (mods st)] st)
       (\<lambda>x st'. Done () (Init_go [0..<length (mods st')] st'))"

text \<open>What the goroutines of module \<open>i\<close> do when they are scheduled: each one that can
  return does, and \<open>run\<close> ends with \<open>wg.Done()\<close>. A goroutine that returns on close
  takes one value from the close signal. \<open>wg.Done()\<close> panics when the counter would
  become negative.\<close>

definition run_goroutines :: "nat \<Rightarrow> manager \<Rightarrow> (unit, manager) res" where
  "run_goroutines i st =
     (let m = mods st ! i;
          sig = closeSig m;
          n = (case Run (mi m) of
                 ReturnsOnClose \<Rightarrow> min (running m) (length (chan_buf sig))
               | ReturnsAtOnce \<Rightarrow> running m
               | NeverReturns \<Rightarrow> 0);
          sig' = (case Run (mi m) of
                    ReturnsOnClose \<Rightarrow> sig\<lparr>chan_buf := drop n (chan_buf sig)\<rparr>
                  | ReturnsAtOnce \<Rightarrow> sig
                  | NeverReturns \<Rightarrow> sig)
      in if wg m < int n then Panicked NegativeWaitGroup st
         else Done ()
                (st\<lparr>mods := (mods st)[i := m\<lparr>closeSig := sig', wg := wg m - int n,
                                             running := running m - n\<rparr>],
                    trace := trace st @ replicate n (Run_returned i)\<rparr>))"

text \<open>\<open>destroy\<close> calls \<open>OnDestroy\<close> and recovers whatever it panics with.\<close>

definition destroy :: "int \<Rightarrow> nat \<Rightarrow> manager \<Rightarrow> manager" where
  "destroy lenStackBuf i st =
     (let st' = st\<lparr>trace := trace st @ [OnDestroy_called i]\<rparr>
      in case OnDestroy (mi (mods st ! i)) of
           Return x \<Rightarrow> st'
         | Panic r \<Rightarrow> st'\<lparr>trace := trace st' @ [Logged r (0 < lenStackBuf)]\<rparr>)"

text \<open>One round of the loop of \<open>Destroy\<close>: the send on the close signal waits for room in
  its buffer, \<open>wg.Wait()\<close> waits for the counter to reach zero, and the module's
  goroutines run while \<open>Destroy\<close> waits.\<close>

definition Destroy_module :: "int \<Rightarrow> nat \<Rightarrow> manager \<Rightarrow> (unit, manager) res" where
  "Destroy_module lenStackBuf i st =
     and_then (run_goroutines i st)
       (\<lambda>x st1.
          (let m = mods st1 ! i
           in case send (closeSig m) True of
                SendPanics \<Rightarrow> Panicked SendOnClosedChannel st1
              | WouldBlock \<Rightarrow> Blocked st1
              | Sent ch \<Rightarrow>
                  and_then (run_goroutines i (st1\<lparr>mods := (mods st1)[i := m\<lparr>closeSig := ch\<rparr>]\<rparr>))
                    (\<lambda>y st2.
                       if wg (mods st2 ! i) > 0 then Blocked st2
                       else Done () (destroy lenStackBuf i st2))))"

fun Destroy_loop :: "int \<Rightarrow> nat list \<Rightarrow> manager \<Rightarrow> (unit, manager) res" where
  "Destroy_loop lenStackBuf [] st = Done () st"
| "Destroy_loop lenStackBuf (i # is) st =
     and_then (Destroy_module lenStackBuf i st) (\<lambda>x. Destroy_loop lenStackBuf is)"

definition Destroy :: "int \<Rightarrow> manager \<Rightarrow> (unit, manager) res" where
  "Destroy lenStackBuf st = Destroy_loop lenStackBuf (rev [0..<length (mods st)]) st"

text \<open>The registry that \<open>leaf.Run\<close> builds: it registers its modules in order, starting
  from the empty registry.\<close>

definition empty_manager :: manager where
  "empty_manager = \<lparr>mods = [], trace = []\<rparr>"

definition Register_all :: "Module list \<Rightarrow> manager \<Rightarrow> manager" where
  "Register_all xs st = foldl (\<lambda>s x. module_Register x s) st xs"

text \<open>What \<open>destroy\<close> adds to the trace for module \<open>i\<close>: the call of \<open>OnDestroy\<close>, and
  the log entry if it panicked.\<close>

definition destroy_events :: "int \<Rightarrow> nat \<Rightarrow> Module \<Rightarrow> mevent list" where
  "destroy_events lenStackBuf i x =
     OnDestroy_called i #
       (case OnDestroy x of Return u \<Rightarrow> [] | Panic r \<Rightarrow> [Logged r (0 < lenStackBuf)])"

text \<open>A module of the registry as \<open>Register\<close> makes it (\<open>fresh\<close>), as \<open>Init\<close> leaves
  it (\<open>started\<close>), as a first \<open>Destroy\<close> leaves it (\<open>stopped\<close>: a module whose
  \<open>Run\<close> did not read the close signal still has the value in the buffer), and as a
  second \<open>Destroy\<close> leaves a module whose \<open>Run\<close> had read it (\<open>signalled\<close>).\<close>

definition fresh :: "Module \<Rightarrow> module" where
  "fresh x = \<lparr>mi = x, closeSig = make_chan 1, wg = 0, running = 0\<rparr>"

definition started :: "Module \<Rightarrow> module" where
  "started x = \<lparr>mi = x, closeSig = make_chan 1, wg = 1, running = 1\<rparr>"

definition stopped :: "Module \<Rightarrow> module" where
  "stopped x =
     \<lparr>mi = x,
      closeSig = (make_chan 1)\<lparr>chan_buf := (if Run x = ReturnsOnClose then [] else [True])\<rparr>,
      wg = 0, running = 0\<rparr>"

definition signalled :: "Module \<Rightarrow> module" where
  "signalled x = \<lparr>mi = x, closeSig = (make_chan 1)\<lparr>chan_buf := [True]\<rparr>, wg = 0, running = 0\<rparr>"

section \<open>Example states\<close>

text \<open>A server with the handler \<open>a\<close>; and a world whose servers all hold two handlers:
  \<open>boom\<close>, of kind K0, which panics, and \<open>dbl\<close>, of kind K1, which panics on 0
  and returns the double of any other integer.\<close>

definition server_a :: Server where
  "server_a = \<lparr>s_functions = [VStr ''a'' \<mapsto> VFunc T_K0 0], ChanCall = make_chan 1\<rparr>"

definition ex_env :: env where
  "ex_env =
     \<lparr>handler = (\<lambda>k as. if k = 0 then Panic (PanicVal (VStr ''boom''))
                         else (case as of
                                 [VInt x] \<Rightarrow>
                                   if x = 0 then Panic (PanicVal (VStr ''division by zero''))
                                   else Return (VInt (2 * x))
                               | _ \<Rightarrow> Return VNil)),
      callback = (\<lambda>k vs err. Return ()),
      LenStackBuf = 4096\<rparr>"

definition ex_server :: Server where
  "ex_server =
     \<lparr>s_functions = [VStr ''boom'' \<mapsto> VFunc T_K0 0, VStr ''dbl'' \<mapsto> VFunc T_K1 1],
      ChanCall = make_chan 4\<rparr>"

definition ex_world :: world where
  "ex_world =
     \<lparr>servers = (\<lambda>sid. ex_server), chans = (\<lambda>r. make_chan 0), next_chan = 0,
      next_server = 1, commands = initial_commands, log = []\<rparr>"

definition ex_client :: Client where
  "ex_client = \<lparr>c_s = Some 0, chanSyncRet = 0, ChanAsynRet = 1, pendingAsynCall = 0\<rparr>"

text \<open>A client whose one slot is taken, in a world whose reply channels have one slot.\<close>

definition busy_client :: Client where
  "busy_client = \<lparr>c_s = Some 0, chanSyncRet = 0, ChanAsynRet = 1, pendingAsynCall = 1\<rparr>"

definition ex_world1 :: world where
  "ex_world1 = ex_world\<lparr>chans := (\<lambda>r. make_chan 1)\<rparr>"

text \<open>A skeleton with every facility disabled, and components that do nothing.\<close>

definition ex_ext :: ext where
  "ex_ext =
     \<lparr>g_New = (\<lambda>l w. w), timer_NewDispatcher = (\<lambda>l w. w),
      dispatcher_AfterFunc = (\<lambda>d cb. Done ()), dispatcher_CronFunc = (\<lambda>c cb. Done ()),
      g_Go = (\<lambda>fn cb. Done ()), g_NewLinearContext = Done ()\<rparr>"

definition sk_zero :: Skeleton where
  "sk_zero =
     \<lparr>GoLen = 0, TimerDispatcherLen = 0, AsynCallLen = 0, ChanRPCServer = None,
      sk_g = False, sk_dispatcher = False, sk_client = None, sk_server = None,
      sk_commandServer = None\<rparr>"

definition ex_skeleton :: "Skeleton \<times> world" where
  "ex_skeleton = state_of (Skeleton_Init ex_ext (sk_zero, ex_world))"




text \<open>Three modules that honour the contract of \<open>Run\<close>; the second one panics in
  \<open>OnDestroy\<close>. And the registry of one module after \<open>Init\<close> and a first
  \<open>Destroy\<close>.\<close>

definition module_ok :: Module where
  "module_ok = \<lparr>OnInit = Return (), OnDestroy = Return (), Run = ReturnsOnClose\<rparr>"

definition module_bad :: Module where
  "module_bad =
     \<lparr>OnInit = Return (), OnDestroy = Panic (PanicVal (VStr ''oops'')), Run = ReturnsOnClose\<rparr>"

definition ex_destroyed :: manager where
  "ex_destroyed = state_of (Destroy 0 (state_of (Init (Register_all [module_ok] empty_manager))))"



section \<open>Properties\<close>

subsection \<open>Registering an id twice\<close>

text \<open>C6, as amended. \<open>Register\<close> looks at the type of the function before it looks at
  the table. When the id is already in the table, registering a function of one of the
  three kinds panics with the already-registered message, and registering anything else
  panics with the invalid-definition message; in both cases the server (its table, with
  the first handler still under the id, and its call queue) is left as it was.\<close>

theorem Register_again:
  assumes "s_functions s fid = Some f0"
  shows "(is_function fn \<longrightarrow> Register fid fn s = Panicked (AlreadyRegistered fid) s) \<and>
         (\<not> is_function fn \<longrightarrow> Register fid fn s = Panicked (InvalidDefinition fid) s)"
  using assms by (simp add: Register_def)

theorem Register_again_witness:
  "s_functions server_a (VStr ''a'') = Some (VFunc T_K0 0) \<and>
   is_function (VFunc T_K1 1) \<and>
   Register (VStr ''a'') (VFunc T_K1 1) server_a = Panicked (AlreadyRegistered (VStr ''a'')) server_a \<and>
   \<not> is_function (VStr ''f'') \<and>
   Register (VStr ''a'') (VStr ''f'') server_a = Panicked (InvalidDefinition (VStr ''a'')) server_a"
proof -
  have h: "s_functions server_a (VStr ''a'') = Some (VFunc T_K0 0)"
    by (simp add: server_a_def)
  from Register_again [OF h, of "VFunc T_K1 1"] Register_again [OF h, of "VStr ''f''"] h
  show ?thesis by simp
qed

text \<open>C6 as stated fails when the second registration passes a value that is not a
  function of one of the three kinds: the id \<open>a\<close> is in the table, and the panic is the
  invalid-definition one, not the already-registered one.\<close>

theorem Register_again_counterexample:
  "s_functions server_a (VStr ''a'') = Some (VFunc T_K0 0) \<and>
   Register (VStr ''a'') (VInt 5) server_a = Panicked (InvalidDefinition (VStr ''a'')) server_a \<and>
   Register (VStr ''a'') (VInt 5) server_a \<noteq> Panicked (AlreadyRegistered (VStr ''a'')) server_a"
  by (simp add: Register_def server_a_def)

subsection \<open>The callback argument of an asynchronous call\<close>

text \<open>C10. \<open>AsynCall\<close> reads its last argument as the callback. With no argument at all
  it panics with the callback-not-found message; with a last argument that is none of
  \<open>func(error)\<close>, \<open>func(interface{}, error)\<close> and \<open>func([]interface{}, error)\<close> it
  panics with the invalid-callback message. Both panics leave the client, its counter
  included, and the store, the server's queue included, as they were.\<close>

theorem AsynCall_needs_callback:
  "AsynCall e fid [] (c, w) = Panicked CallbackNotFound (c, w) \<and>
   (xs \<noteq> [] \<and>
    (\<forall>k. last xs \<noteq> VFunc T_Cb0 k \<and> last xs \<noteq> VFunc T_Cb1 k \<and> last xs \<noteq> VFunc T_CbN k)
      \<longrightarrow> AsynCall e fid xs (c, w) = Panicked InvalidCallback (c, w))"
proof -
  have k: "callback_kind v = None"
    if "\<forall>k. v \<noteq> VFunc T_Cb0 k \<and> v \<noteq> VFunc T_Cb1 k \<and> v \<noteq> VFunc T_CbN k" for v
    using that by (cases v rule: callback_kind.cases) auto
  show ?thesis
    by (auto simp: AsynCall_def Let_def k)
qed

theorem AsynCall_needs_callback_witness:
  "[VInt 1, VStr ''cb''] \<noteq> [] \<and>
   (\<forall>k. last [VInt 1, VStr ''cb''] \<noteq> VFunc T_Cb0 k \<and> last [VInt 1, VStr ''cb''] \<noteq> VFunc T_Cb1 k
        \<and> last [VInt 1, VStr ''cb''] \<noteq> VFunc T_CbN k) \<and>
   AsynCall ex_env (VStr ''dbl'') [VInt 1, VStr ''cb''] (ex_client, ex_world)
     = Panicked InvalidCallback (ex_client, ex_world) \<and>
   AsynCall ex_env (VStr ''dbl'') [] (ex_client, ex_world)
     = Panicked CallbackNotFound (ex_client, ex_world)"
  using AsynCall_needs_callback
          [of ex_env "VStr ''dbl''" ex_client ex_world "[VInt 1, VStr ''cb'']"]
  by simp

subsection \<open>The limit on outstanding asynchronous calls\<close>

lemma execCb_callback:
  assumes "ri_cb ri = VFunc t k" and "t = T_Cb0 \<or> t = T_Cb1 \<or> t = T_CbN" and "ri_ret ri = VNil"
  shows "\<exists>vs evs. execCb e ri w = w\<lparr>log := log w @ Invoked (ri_cb ri) vs (ri_err ri) # evs\<rparr>"
proof -
  have inv: "\<exists>evs. invoke e cb k vs err w = w\<lparr>log := log w @ Invoked cb vs err # evs\<rparr>"
    for cb vs err
  proof (cases "callback e k vs err")
    case (Return x)
    then have "invoke e cb k vs err w = w\<lparr>log := log w @ Invoked cb vs err # []\<rparr>"
      by (simp add: invoke_def Let_def)
    then show ?thesis by blast
  next
    case (Panic r)
    then have "invoke e cb k vs err w =
        w\<lparr>log := log w @ Invoked cb vs err # [LogPanic r (0 < LenStackBuf e)]\<rparr>"
      by (simp add: invoke_def execCb_recover_def Let_def)
    then show ?thesis by blast
  qed
  from assms(2) show ?thesis
  proof (elim disjE)
    assume "t = T_Cb0"
    with assms(1) inv [of "ri_cb ri" "[]" "ri_err ri"] show ?thesis
      by (auto simp: execCb_def)
  next
    assume "t = T_Cb1"
    with assms(1) inv [of "ri_cb ri" "[ri_ret ri]" "ri_err ri"] show ?thesis
      by (auto simp: execCb_def)
  next
    assume "t = T_CbN"
    with assms(1,3) inv [of "ri_cb ri" "[VSlice []]" "ri_err ri"] show ?thesis
      by (auto simp: execCb_def)
  qed
qed

text \<open>C2. When the counter of outstanding calls has reached the capacity of the client's
  asynchronous reply queue, \<open>AsynCall\<close> with a callback of one of the three shapes
  returns at once: the callback has been called, inside \<open>AsynCall\<close>, with the
  too-many-calls error; the client and its counter are as before; and so is the store but
  for the log, so nothing has been put into the server's queue or into a reply queue.\<close>

theorem AsynCall_too_many_calls:
  assumes "xs \<noteq> []"
    and "last xs = VFunc t k" and "t = T_Cb0 \<or> t = T_Cb1 \<or> t = T_CbN"
    and "pendingAsynCall c \<ge> int (chan_cap (chans w (ChanAsynRet c)))"
  shows "\<exists>vs evs. AsynCall e fid xs (c, w) =
           Done () (c, w\<lparr>log := log w @ Invoked (last xs) vs (Some TooManyCalls) # evs\<rparr>)"
proof -
  have kind: "callback_kind (last xs) \<noteq> None"
    using assms(2,3) by auto
  have "AsynCall e fid xs (c, w) =
          Done () (c, execCb e \<lparr>ri_ret = VNil, ri_err = Some TooManyCalls, ri_cb = last xs\<rparr> w)"
    using assms(1,4) kind by (auto simp: AsynCall_def Let_def)
  moreover have "\<exists>vs evs. execCb e \<lparr>ri_ret = VNil, ri_err = Some TooManyCalls, ri_cb = last xs\<rparr> w
      = w\<lparr>log := log w @ Invoked (last xs) vs (Some TooManyCalls) # evs\<rparr>"
    using execCb_callback [of "\<lparr>ri_ret = VNil, ri_err = Some TooManyCalls, ri_cb = last xs\<rparr>" t k e w]
      assms(2,3) by simp
  ultimately show ?thesis by auto
qed

theorem AsynCall_too_many_calls_witness:
  "[VInt 3, VFunc T_Cb1 7] \<noteq> [] \<and> last [VInt 3, VFunc T_Cb1 7] = VFunc T_Cb1 7 \<and>
   pendingAsynCall busy_client \<ge> int (chan_cap (chans ex_world1 (ChanAsynRet busy_client))) \<and>
   (\<exists>vs evs. AsynCall ex_env (VStr ''dbl'') [VInt 3, VFunc T_Cb1 7] (busy_client, ex_world1) =
      Done () (busy_client,
               ex_world1\<lparr>log := log ex_world1 @
                  Invoked (last [VInt 3, VFunc T_Cb1 7]) vs (Some TooManyCalls) # evs\<rparr>))"
proof -
  have h: "pendingAsynCall busy_client \<ge> int (chan_cap (chans ex_world1 (ChanAsynRet busy_client)))"
    by (simp add: busy_client_def ex_world1_def ex_world_def make_chan_def)
  from AsynCall_too_many_calls
         [where xs = "[VInt 3, VFunc T_Cb1 7]" and t = T_Cb1 and k = 7 and c = busy_client
            and w = ex_world1 and e = ex_env and fid = "VStr ''dbl''", OF _ _ _ h] h
  show ?thesis by simp
qed

subsection \<open>The server's synchronous entry points\<close>

lemma Open_zero:
  "Open sid 0 w =
     Done \<lparr>c_s = Some sid, chanSyncRet = next_chan w, ChanAsynRet = Suc (next_chan w),
            pendingAsynCall = 0\<rparr>
       (w\<lparr>chans := (chans w)(next_chan w := make_chan 1, Suc (next_chan w) := make_chan 0),
          next_chan := next_chan w + 2\<rparr>)"
  by (simp add: Open_def NewClient_def Attach_def and_then_def)

lemma is_function_not_nil: "is_function fn \<Longrightarrow> fn \<noteq> VNil"
  by auto

lemma Client_Call_posts:
  assumes "c_s c = Some sid" and "s_functions (servers w sid) fid = Some fn" and "is_function fn"
    and "\<not> chan_closed (ChanCall (servers w sid))"
    and "length (chan_buf (ChanCall (servers w sid))) < chan_cap (ChanCall (servers w sid))"
  shows "has_ftype T_K0 fn \<Longrightarrow> Client_Call0 sched c fid as w =
           and_then (await_reply sched c (post c fn as w)) (\<lambda>ri. Done (ri_err ri))"
    and "has_ftype T_K1 fn \<Longrightarrow> Client_Call1 sched c fid as w =
           and_then (await_reply sched c (post c fn as w)) (\<lambda>ri. Done (ri_ret ri, ri_err ri))"
    and "has_ftype T_KN fn \<Longrightarrow> Client_CallN sched c fid as w =
           and_then (await_reply sched c (post c fn as w))
             (\<lambda>ri w'. case assert_slice (ri_ret ri) of
                         Return xs \<Rightarrow> Done (xs, ri_err ri) w'
                       | Panic p \<Rightarrow> Panicked p w')"
proof -
  have nn: "fn \<noteq> VNil" using assms(3) by auto
  have sc: "sync_call sched c fn as w =
      and_then (await_reply sched c (post c fn as w)) (\<lambda>ri. Done (Some ri, ri_err ri))"
    using assms(1,4,5) by (simp add: sync_call_def call_def send_def and_then_def post_def)
  show "has_ftype T_K0 fn \<Longrightarrow> Client_Call0 sched c fid as w =
           and_then (await_reply sched c (post c fn as w)) (\<lambda>ri. Done (ri_err ri))"
    using assms(1,2) nn
    by (simp add: Client_Call0_def Client_f_def sc) (simp add: and_then_def split: res.splits)
  show "has_ftype T_K1 fn \<Longrightarrow> Client_Call1 sched c fid as w =
           and_then (await_reply sched c (post c fn as w)) (\<lambda>ri. Done (ri_ret ri, ri_err ri))"
    using assms(1,2) nn
    by (simp add: Client_Call1_def Client_f_def sc) (simp add: and_then_def split: res.splits)
  show "has_ftype T_KN fn \<Longrightarrow> Client_CallN sched c fid as w =
           and_then (await_reply sched c (post c fn as w))
             (\<lambda>ri w'. case assert_slice (ri_ret ri) of
                         Return xs \<Rightarrow> Done (xs, ri_err ri) w'
                       | Panic p \<Rightarrow> Panicked p w')"
    using assms(1,2) nn
    by (simp add: Client_CallN_def Client_f_def sc) (simp add: and_then_def split: res.splits)
qed

text \<open>C7, as amended. \<open>Server.Call0\<close>, \<open>Call1\<close> and \<open>CallN\<close> open a client for the
  call with \<open>Open(0)\<close>: the 0 is the capacity of its asynchronous reply queue, and its
  synchronous reply slot has capacity 1, as that of every client. They are the client's
  \<open>Call0\<close>, \<open>Call1\<close> and \<open>CallN\<close> on that client. When the registered function is
  not of the kind the entry point asks for, the result is the return-type-mismatch error
  and no server's queue has changed. When it is, and the server's queue is open and has
  room, the call is posted with the client's synchronous slot as its reply channel and
  the reply is awaited.\<close>

theorem Server_Call_transient_client:
  assumes "s_functions (servers w sid) fid = Some fn" and "is_function fn"
  shows "\<exists>c w'. Open sid 0 w = Done c w' \<and> c_s c = Some sid \<and>
           chans w' (chanSyncRet c) = make_chan 1 \<and>
           chans w' (ChanAsynRet c) = make_chan 0 \<and>
           servers w' = servers w \<and>
           Server_Call0 sched sid fid as w = Client_Call0 sched c fid as w' \<and>
           Server_Call1 sched sid fid as w = Client_Call1 sched c fid as w' \<and>
           Server_CallN sched sid fid as w = Client_CallN sched c fid as w' \<and>
           (\<not> has_ftype T_K0 fn \<longrightarrow>
              Server_Call0 sched sid fid as w = Done (Some (ReturnTypeMismatch fid)) w') \<and>
           (\<not> has_ftype T_K1 fn \<longrightarrow>
              Server_Call1 sched sid fid as w = Done (VNil, Some (ReturnTypeMismatch fid)) w') \<and>
           (\<not> has_ftype T_KN fn \<longrightarrow>
              Server_CallN sched sid fid as w = Done ([], Some (ReturnTypeMismatch fid)) w') \<and>
           (\<not> chan_closed (ChanCall (servers w sid)) \<and>
            length (chan_buf (ChanCall (servers w sid))) < chan_cap (ChanCall (servers w sid)) \<longrightarrow>
              (has_ftype T_K0 fn \<longrightarrow>
                 Server_Call0 sched sid fid as w =
                   and_then (await_reply sched c (post c fn as w')) (\<lambda>ri. Done (ri_err ri))) \<and>
              (has_ftype T_K1 fn \<longrightarrow>
                 Server_Call1 sched sid fid as w =
                   and_then (await_reply sched c (post c fn as w'))
                     (\<lambda>ri. Done (ri_ret ri, ri_err ri))))"
proof -
  let ?c = "\<lparr>c_s = Some sid, chanSyncRet = next_chan w, ChanAsynRet = Suc (next_chan w),
            pendingAsynCall = 0\<rparr>"
  let ?w = "w\<lparr>chans := (chans w)(next_chan w := make_chan 1, Suc (next_chan w) := make_chan 0),
          next_chan := next_chan w + 2\<rparr>"
  have nn: "fn \<noteq> VNil" using assms(2) by (rule is_function_not_nil)
  have f: "s_functions (servers ?w sid) fid = Some fn" using assms(1) by simp
  have m0: "\<not> has_ftype T_K0 fn \<Longrightarrow>
      Client_Call0 sched ?c fid as ?w = Done (Some (ReturnTypeMismatch fid)) ?w"
    using f nn by (simp add: Client_Call0_def Client_f_def Let_def)
  have m1: "\<not> has_ftype T_K1 fn \<Longrightarrow>
      Client_Call1 sched ?c fid as ?w = Done (VNil, Some (ReturnTypeMismatch fid)) ?w"
    using f nn by (simp add: Client_Call1_def Client_f_def Let_def)
  have m2: "\<not> has_ftype T_KN fn \<Longrightarrow>
      Client_CallN sched ?c fid as ?w = Done ([], Some (ReturnTypeMismatch fid)) ?w"
    using f nn by (simp add: Client_CallN_def Client_f_def Let_def)
  have s0: "Server_Call0 sched sid fid as w = Client_Call0 sched ?c fid as ?w"
    by (simp add: Server_Call0_def Open_zero and_then_def)
  have s1: "Server_Call1 sched sid fid as w = Client_Call1 sched ?c fid as ?w"
    by (simp add: Server_Call1_def Open_zero and_then_def)
  have s2: "Server_CallN sched sid fid as w = Client_CallN sched ?c fid as ?w"
    by (simp add: Server_CallN_def Open_zero and_then_def)
  have p0: "Client_Call0 sched ?c fid as ?w =
              and_then (await_reply sched ?c (post ?c fn as ?w)) (\<lambda>ri. Done (ri_err ri))"
    if "\<not> chan_closed (ChanCall (servers w sid))"
      and "length (chan_buf (ChanCall (servers w sid))) < chan_cap (ChanCall (servers w sid))"
      and "has_ftype T_K0 fn"
    using that Client_Call_posts(1)[where c = ?c and w = ?w and sid = sid, OF _ f assms(2)]
    by simp
  have p1: "Client_Call1 sched ?c fid as ?w =
              and_then (await_reply sched ?c (post ?c fn as ?w)) (\<lambda>ri. Done (ri_ret ri, ri_err ri))"
    if "\<not> chan_closed (ChanCall (servers w sid))"
      and "length (chan_buf (ChanCall (servers w sid))) < chan_cap (ChanCall (servers w sid))"
      and "has_ftype T_K1 fn"
    using that Client_Call_posts(2)[where c = ?c and w = ?w and sid = sid, OF _ f assms(2)]
    by simp
  show ?thesis
    apply (rule exI [of _ ?c], rule exI [of _ ?w])
    using m0 m1 m2 s0 s1 s2 p0 p1 by (simp add: Open_zero)
qed

theorem Server_Call_transient_client_witness:
  "s_functions (servers ex_world 0) (VStr ''boom'') = Some (VFunc T_K0 0) \<and>
   is_function (VFunc T_K0 0) \<and> \<not> has_ftype T_K1 (VFunc T_K0 0) \<and>
   \<not> has_ftype T_KN (VFunc T_K0 0) \<and> has_ftype T_K0 (VFunc T_K0 0) \<and>
   \<not> chan_closed (ChanCall (servers ex_world 0)) \<and>
   length (chan_buf (ChanCall (servers ex_world 0))) < chan_cap (ChanCall (servers ex_world 0)) \<and>
   (\<exists>c w'. Open 0 0 ex_world = Done c w' \<and>
      chans w' (chanSyncRet c) = make_chan 1 \<and> chans w' (ChanAsynRet c) = make_chan 0 \<and>
      Server_Call1 (serve ex_env 0) 0 (VStr ''boom'') [] ex_world
         = Done (VNil, Some (ReturnTypeMismatch (VStr ''boom''))) w' \<and>
      Server_CallN (serve ex_env 0) 0 (VStr ''boom'') [] ex_world
         = Done ([], Some (ReturnTypeMismatch (VStr ''boom''))) w' \<and>
      Server_Call0 (serve ex_env 0) 0 (VStr ''boom'') [] ex_world =
         and_then (await_reply (serve ex_env 0) c (post c (VFunc T_K0 0) [] w'))
           (\<lambda>ri. Done (ri_err ri)) \<and>
      servers w' = servers ex_world)"
proof -
  have h: "s_functions (servers ex_world 0) (VStr ''boom'') = Some (VFunc T_K0 0)"
    by (simp add: ex_world_def ex_server_def)
  have i: "is_function (VFunc T_K0 0)" by simp
  have q: "\<not> chan_closed (ChanCall (servers ex_world 0)) \<and>
     length (chan_buf (ChanCall (servers ex_world 0))) < chan_cap (ChanCall (servers ex_world 0))"
    by (simp add: ex_world_def ex_server_def make_chan_def)
  from Server_Call_transient_client [OF h i, of "serve ex_env 0" "[]"] h q
  show ?thesis by auto
qed

text \<open>C7 as stated fails: the synchronous reply slot of the client that \<open>Open(0)\<close>
  makes does not have capacity 0 but capacity 1; it is the asynchronous reply queue
  that has capacity 0.\<close>

theorem sync_slot_counterexample:
  "returned (Open 0 0 ex_world) \<and>
   map_option chanSyncRet (result_of (Open 0 0 ex_world)) = Some 0 \<and>
   map_option ChanAsynRet (result_of (Open 0 0 ex_world)) = Some 1 \<and>
   chan_cap (chans (state_of (Open 0 0 ex_world)) 0) = 1 \<and>
   chan_cap (chans (state_of (Open 0 0 ex_world)) 0) \<noteq> 0 \<and>
   chan_cap (chans (state_of (Open 0 0 ex_world)) 1) = 0"
  by (simp add: Open_zero ex_world_def make_chan_def)

subsection \<open>The gates of the skeleton\<close>

text \<open>C8, as amended. \<open>AfterFunc\<close> and \<open>CronFunc\<close> panic when \<open>TimerDispatcherLen\<close> is
  zero, \<open>Go\<close> and \<open>NewLinearContext\<close> when \<open>GoLen\<close> is zero, \<open>AsynCall\<close> when
  \<open>AsynCallLen\<close> is zero, \<open>RegisterChanRPC\<close> when no \<open>ChanRPCServer\<close> was given; each
  of these panics comes before anything else is done, so the skeleton and the store are
  as before. \<open>RegisterCommand\<close> has no gate: \<open>Init\<close> always makes the command server,
  and on a skeleton that has one a new command with a function of one of the three kinds
  is registered whatever the configuration says.\<close>

theorem Skeleton_gates:
  "(TimerDispatcherLen s = 0 \<longrightarrow>
      Skeleton_AfterFunc x d cb (s, w)
        = Panicked (InvalidFacility ''invalid TimerDispatcherLen'') (s, w) \<and>
      Skeleton_CronFunc x cronExpr cb (s, w)
        = Panicked (InvalidFacility ''invalid TimerDispatcherLen'') (s, w)) \<and>
   (GoLen s = 0 \<longrightarrow>
      Skeleton_Go x fn cb (s, w) = Panicked (InvalidFacility ''invalid GoLen'') (s, w) \<and>
      Skeleton_NewLinearContext x (s, w) = Panicked (InvalidFacility ''invalid GoLen'') (s, w)) \<and>
   (AsynCallLen s = 0 \<longrightarrow>
      Skeleton_AsynCall e sid fid xs (s, w)
        = Panicked (InvalidFacility ''invalid AsynCallLen'') (s, w)) \<and>
   (ChanRPCServer s = None \<longrightarrow>
      Skeleton_RegisterChanRPC fid fn (s, w)
        = Panicked (InvalidFacility ''invalid ChanRPCServer'') (s, w)) \<and>
   (sk_commandServer s = Some cid \<and> is_function fn \<and>
    \<not> list_ex (\<lambda>c. command_name c = name) (commands w) \<and>
    s_functions (servers w cid) (VStr name) = None \<longrightarrow>
      Skeleton_RegisterCommand name usage fn (s, w) =
        Done () (s, w\<lparr>servers := (servers w)(cid := (servers w cid)
                          \<lparr>s_functions := (s_functions (servers w cid))(VStr name \<mapsto> fn)\<rparr>),
                      commands := commands w @ [ExternalCommand name usage cid]\<rparr>))"
  by (simp add: Skeleton_AfterFunc_def Skeleton_CronFunc_def Skeleton_Go_def
      Skeleton_NewLinearContext_def Skeleton_AsynCall_def Skeleton_RegisterChanRPC_def
      Skeleton_RegisterCommand_def console_Register_def Register_def on_server_def
      on_skeleton_def and_then_def)

lemma ex_skeleton_facts:
  "TimerDispatcherLen (fst ex_skeleton) = 0 \<and> GoLen (fst ex_skeleton) = 0 \<and>
   AsynCallLen (fst ex_skeleton) = 0 \<and> ChanRPCServer (fst ex_skeleton) = None \<and>
   sk_commandServer (fst ex_skeleton) = Some 2 \<and>
   \<not> list_ex (\<lambda>c. command_name c = ''status'') (commands (snd ex_skeleton)) \<and>
   s_functions (servers (snd ex_skeleton) 2) (VStr ''status'') = None"
  by (simp add: ex_skeleton_def Skeleton_Init_def sk_zero_def ex_world_def ex_ext_def
      NewClient_def on_skeleton_def and_then_def new_server_def NewServer_def Let_def
      initial_commands_def)

theorem Skeleton_gates_witness:
  "TimerDispatcherLen (fst ex_skeleton) = 0 \<and> GoLen (fst ex_skeleton) = 0 \<and>
   AsynCallLen (fst ex_skeleton) = 0 \<and> ChanRPCServer (fst ex_skeleton) = None \<and>
   sk_commandServer (fst ex_skeleton) = Some 2 \<and> is_function (VFunc T_K1 1) \<and>
   \<not> list_ex (\<lambda>c. command_name c = ''status'') (commands (snd ex_skeleton)) \<and>
   s_functions (servers (snd ex_skeleton) 2) (VStr ''status'') = None \<and>
   Skeleton_AfterFunc ex_ext 5 (VFunc T_Other 3) ex_skeleton
     = Panicked (InvalidFacility ''invalid TimerDispatcherLen'') ex_skeleton \<and>
   Skeleton_CronFunc ex_ext (VStr ''* * * * *'') (VFunc T_Other 3) ex_skeleton
     = Panicked (InvalidFacility ''invalid TimerDispatcherLen'') ex_skeleton \<and>
   Skeleton_Go ex_ext (VFunc T_K1 1) (VFunc T_Other 3) ex_skeleton
     = Panicked (InvalidFacility ''invalid GoLen'') ex_skeleton \<and>
   Skeleton_NewLinearContext ex_ext ex_skeleton
     = Panicked (InvalidFacility ''invalid GoLen'') ex_skeleton \<and>
   Skeleton_AsynCall ex_env 0 (VStr ''dbl'') [VFunc T_Cb1 7] ex_skeleton
     = Panicked (InvalidFacility ''invalid AsynCallLen'') ex_skeleton \<and>
   Skeleton_RegisterChanRPC (VStr ''dbl'') (VFunc T_K1 1) ex_skeleton
     = Panicked (InvalidFacility ''invalid ChanRPCServer'') ex_skeleton \<and>
   returned (Skeleton_RegisterCommand ''status'' ''prints the status'' (VFunc T_K1 1) ex_skeleton)"
proof -
  have i: "is_function (VFunc T_K1 1)" by simp
  have p: "ex_skeleton = (fst ex_skeleton, snd ex_skeleton)" by simp
  from Skeleton_gates
         [where s = "fst ex_skeleton" and w = "snd ex_skeleton" and x = ex_ext and d = 5
            and cb = "VFunc T_Other 3" and cronExpr = "VStr ''* * * * *''" and fn = "VFunc T_K1 1"
            and e = ex_env and sid = 0 and fid = "VStr ''dbl''" and xs = "[VFunc T_Cb1 7]"
            and cid = 2 and name = "''status''" and usage = "''prints the status''"]
    ex_skeleton_facts i
  show ?thesis by simp
qed

text \<open>C8 as stated fails for \<open>RegisterCommand\<close>: on a skeleton initialised with every
  configuration field zero or absent, it returns, and the command is registered with the
  command server.\<close>

theorem RegisterCommand_counterexample:
  "returned (Skeleton_Init ex_ext (sk_zero, ex_world)) \<and>
   GoLen (fst (state_of (Skeleton_Init ex_ext (sk_zero, ex_world)))) = 0 \<and>
   TimerDispatcherLen (fst (state_of (Skeleton_Init ex_ext (sk_zero, ex_world)))) = 0 \<and>
   AsynCallLen (fst (state_of (Skeleton_Init ex_ext (sk_zero, ex_world)))) = 0 \<and>
   ChanRPCServer (fst (state_of (Skeleton_Init ex_ext (sk_zero, ex_world)))) = None \<and>
   returned (Skeleton_RegisterCommand ''status'' ''prints the status'' (VFunc T_K1 1)
               (state_of (Skeleton_Init ex_ext (sk_zero, ex_world)))) \<and>
   s_functions (servers (snd (state_of
       (Skeleton_RegisterCommand ''status'' ''prints the status'' (VFunc T_K1 1)
          (state_of (Skeleton_Init ex_ext (sk_zero, ex_world)))))) 2) (VStr ''status'')
     = Some (VFunc T_K1 1)"
  by (simp add: Skeleton_Init_def sk_zero_def ex_world_def ex_ext_def NewClient_def
      on_skeleton_def and_then_def new_server_def NewServer_def Let_def Skeleton_RegisterCommand_def
      console_Register_def initial_commands_def Register_def on_server_def)

subsection \<open>One reply for every call\<close>













subsection \<open>A handler that panics\<close>








subsection \<open>Destroying the modules\<close>

lemma Register_all_mods:
  "mods (Register_all xs st) = mods st @ map fresh xs \<and> trace (Register_all xs st) = trace st"
  by (induction xs arbitrary: st) (simp_all add: Register_all_def module_Register_def fresh_def)

lemma Init_OnInit_ok:
  assumes "\<forall>i \<in> set is. OnInit (mi (mods st ! i)) = Return ()"
  shows "Init_OnInit is st = Done () (st\<lparr>trace := trace st @ map OnInit_called is\<rparr>)"
  using assms by (induction "is" arbitrary: st) (simp_all add: Let_def)

lemma Init_go_effect:
  assumes "distinct is" and "\<forall>i \<in> set is. i < length (mods st)"
  shows "length (mods (Init_go is st)) = length (mods st) \<and>
         trace (Init_go is st) = trace st @ map Run_started is \<and>
         (\<forall>j < length (mods st). mods (Init_go is st) ! j =
            (if j \<in> set is
             then (mods st ! j)\<lparr>wg := wg (mods st ! j) + 1, running := running (mods st ! j) + 1\<rparr>
             else mods st ! j))"
  using assms
proof (induction "is" arbitrary: st)
  case Nil
  then show ?case by simp
next
  case (Cons i "is")
  let ?m = "mods st ! i"
  let ?a = "st\<lparr>mods := (mods st)[i := ?m\<lparr>wg := wg ?m + 1, running := running ?m + 1\<rparr>],
               trace := trace st @ [Run_started i]\<rparr>"
  have d: "distinct is" "i \<notin> set is" using Cons.prems(1) by simp_all
  have b: "\<forall>j \<in> set is. j < length (mods ?a)" using Cons.prems(2) by simp
  have i: "i < length (mods st)" using Cons.prems(2) by simp
  note IH = Cons.IH [OF d(1) b]
  have "Init_go (i # is) st = Init_go is ?a" by (simp add: Let_def)
  then show ?case
    using IH d(2) i by (auto simp: nth_list_update)
qed

lemma Init_registered:
  assumes "\<forall>x \<in> set xs. OnInit x = Return ()"
  shows "\<exists>st1. Init (Register_all xs empty_manager) = Done () st1 \<and>
           mods st1 = map started xs \<and>
           trace st1 = map OnInit_called [0..<length xs] @ map Run_started [0..<length xs]"
proof -
  let ?reg = "Register_all xs empty_manager"
  have m0: "mods ?reg = map fresh xs" and t0: "trace ?reg = []"
    using Register_all_mods [of xs empty_manager] by (simp_all add: empty_manager_def)
  have oi: "\<forall>i \<in> set [0..<length (mods ?reg)]. OnInit (mi (mods ?reg ! i)) = Return ()"
    using assms by (simp add: m0 fresh_def)
  let ?oni = "?reg\<lparr>trace := trace ?reg @ map OnInit_called [0..<length (mods ?reg)]\<rparr>"
  let ?ini = "Init_go [0..<length (mods ?oni)] ?oni"
  have i: "Init ?reg = Done () ?ini"
    by (simp add: Init_def Init_OnInit_ok [OF oi] and_then_def)
  have g: "length (mods ?ini) = length (mods ?oni)"
    "trace ?ini = trace ?oni @ map Run_started [0..<length (mods ?oni)]"
    "\<forall>j < length (mods ?oni). mods ?ini ! j =
            (if j \<in> set [0..<length (mods ?oni)]
             then (mods ?oni ! j)\<lparr>wg := wg (mods ?oni ! j) + 1,
                                     running := running (mods ?oni ! j) + 1\<rparr>
             else mods ?oni ! j)"
    using Init_go_effect [of "[0..<length (mods ?oni)]" ?oni] by simp_all
  have "mods ?ini = map started xs"
  proof (rule nth_equalityI)
    show "length (mods ?ini) = length (map started xs)"
      using g(1) by (simp add: m0)
  next
    fix j assume "j < length (mods ?ini)"
    then have j: "j < length xs" using g(1) by (simp add: m0)
    then show "mods ?ini ! j = map started xs ! j"
      using g(3) by (simp add: m0 fresh_def started_def)
  qed
  moreover have "trace ?ini = map OnInit_called [0..<length xs] @ map Run_started [0..<length xs]"
    using g(2) by (simp add: m0 t0)
  ultimately show ?thesis using i by blast
qed

lemma running_same: "running m = n \<Longrightarrow> m\<lparr>running := n\<rparr> = m"
  by auto

lemma state_same: "mods st ! i = m \<Longrightarrow> st\<lparr>mods := (mods st)[i := m]\<rparr> = st"
  by auto

lemma run_goroutines_none:
  assumes "running (mods st ! i) = 0 \<or> Run (mi (mods st ! i)) = NeverReturns \<or>
           (Run (mi (mods st ! i)) = ReturnsOnClose \<and> chan_buf (closeSig (mods st ! i)) = [])"
    and "0 \<le> wg (mods st ! i)"
  shows "run_goroutines i st = Done () st"
proof (cases "Run (mi (mods st ! i))")
  case ReturnsOnClose
  with assms have "min (running (mods st ! i)) (length (chan_buf (closeSig (mods st ! i)))) = 0"
    by auto
  with ReturnsOnClose assms(2) show ?thesis
    by (simp add: run_goroutines_def Let_def)
next
  case ReturnsAtOnce
  with assms have "running (mods st ! i) = 0" by auto
  with ReturnsAtOnce assms(2) show ?thesis
    by (simp add: run_goroutines_def Let_def running_same state_same)
next
  case NeverReturns
  with assms(2) show ?thesis
    by (simp add: run_goroutines_def Let_def)
qed

lemma destroy_effect:
  assumes "mi (mods st ! i) = x"
  shows "destroy l i st = st\<lparr>trace := trace st @ destroy_events l i x\<rparr>"
  using assms by (simp add: destroy_def destroy_events_def Let_def split: outcome.splits)

lemma Destroy_module_steps:
  assumes "run_goroutines i st = Done () st1"
    and "send (closeSig (mods st1 ! i)) True = Sent ch"
    and "run_goroutines i (st1\<lparr>mods := (mods st1)[i := (mods st1 ! i)\<lparr>closeSig := ch\<rparr>]\<rparr>) = Done () st2"
    and "wg (mods st2 ! i) \<le> 0"
  shows "Destroy_module l i st = Done () (destroy l i st2)"
  using assms(4) by (simp add: Destroy_module_def assms(1-3) and_then_def Let_def)

lemma Destroy_module_started:
  assumes "i < length (mods st)" and "mods st ! i = started x" and "Run x \<noteq> NeverReturns"
  shows "Destroy_module l i st =
           Done () (st\<lparr>mods := (mods st)[i := stopped x],
                       trace := trace st @ Run_returned i # destroy_events l i x\<rparr>)"
proof (cases "Run x")
  case ReturnsOnClose
  have r1: "run_goroutines i st = Done () st"
    using assms(2) ReturnsOnClose
    by (intro run_goroutines_none) (simp_all add: started_def make_chan_def)
  let ?ch = "(make_chan 1)\<lparr>chan_buf := [True]\<rparr>"
  let ?a = "st\<lparr>mods := (mods st)[i := (mods st ! i)\<lparr>closeSig := ?ch\<rparr>]\<rparr>"
  let ?b = "st\<lparr>mods := (mods st)[i := stopped x], trace := trace st @ [Run_returned i]\<rparr>"
  have r2: "run_goroutines i ?a = Done () ?b"
    using assms(1,2) ReturnsOnClose
    by (simp add: run_goroutines_def Let_def started_def stopped_def make_chan_def)
  have s: "send (closeSig (mods st ! i)) True = Sent ?ch"
    using assms(2) by (simp add: send_def started_def make_chan_def)
  have w: "wg (mods ?b ! i) \<le> 0"
    using assms(1) by (simp add: stopped_def)
  have d: "destroy l i ?b = ?b\<lparr>trace := trace ?b @ destroy_events l i x\<rparr>"
    by (rule destroy_effect) (simp add: assms(1) stopped_def)
  have "Destroy_module l i st = Done () (destroy l i ?b)"
    by (rule Destroy_module_steps [OF r1 s r2 w])
  then show ?thesis
    by (simp only: d) simp
next
  case ReturnsAtOnce
  let ?ch = "(make_chan 1)\<lparr>chan_buf := [True]\<rparr>"
  let ?a = "st\<lparr>mods := (mods st)[i := (started x)\<lparr>wg := 0, running := 0\<rparr>],
               trace := trace st @ [Run_returned i]\<rparr>"
  have r1: "run_goroutines i st = Done () ?a"
    using assms(1,2) ReturnsAtOnce
    by (simp add: run_goroutines_def Let_def started_def)
  let ?b = "?a\<lparr>mods := (mods ?a)[i := (mods ?a ! i)\<lparr>closeSig := ?ch\<rparr>]\<rparr>"
  have r2: "run_goroutines i ?b = Done () ?b"
    using assms(1) by (intro run_goroutines_none) simp_all
  have b: "?b = st\<lparr>mods := (mods st)[i := stopped x], trace := trace st @ [Run_returned i]\<rparr>"
    using assms(1) ReturnsAtOnce by (simp add: started_def stopped_def)
  have s: "send (closeSig (mods ?a ! i)) True = Sent ?ch"
    using assms(1) by (simp add: send_def started_def make_chan_def)
  have w: "wg (mods ?b ! i) \<le> 0"
    using assms(1) by simp
  let ?c = "st\<lparr>mods := (mods st)[i := stopped x], trace := trace st @ [Run_returned i]\<rparr>"
  have d: "destroy l i ?c = ?c\<lparr>trace := trace ?c @ destroy_events l i x\<rparr>"
    by (rule destroy_effect) (simp add: assms(1) stopped_def)
  have "Destroy_module l i st = Done () (destroy l i ?b)"
    by (rule Destroy_module_steps [OF r1 s r2 w])
  then show ?thesis
    by (simp only: b d) simp
next
  case NeverReturns
  with assms(3) show ?thesis by simp
qed

lemma Destroy_module_stopped:
  assumes "i < length (mods st)" and "mods st ! i = stopped x" and "Run x = ReturnsOnClose"
  shows "Destroy_module l i st =
           Done () (st\<lparr>mods := (mods st)[i := signalled x],
                       trace := trace st @ destroy_events l i x\<rparr>)"
proof -
  have r1: "run_goroutines i st = Done () st"
    using assms(2) by (intro run_goroutines_none) (simp_all add: stopped_def)
  let ?ch = "(make_chan 1)\<lparr>chan_buf := [True]\<rparr>"
  let ?b = "st\<lparr>mods := (mods st)[i := (mods st ! i)\<lparr>closeSig := ?ch\<rparr>]\<rparr>"
  have b: "?b = st\<lparr>mods := (mods st)[i := signalled x]\<rparr>"
    using assms(2) by (simp add: stopped_def signalled_def)
  have r2: "run_goroutines i ?b = Done () ?b"
    using assms(1,2) by (intro run_goroutines_none) (simp_all add: stopped_def)
  have s: "send (closeSig (mods st ! i)) True = Sent ?ch"
    using assms(2,3) by (simp add: send_def stopped_def make_chan_def)
  have w: "wg (mods ?b ! i) \<le> 0"
    using assms(1,2) by (simp add: stopped_def)
  let ?c = "st\<lparr>mods := (mods st)[i := signalled x]\<rparr>"
  have d: "destroy l i ?c = ?c\<lparr>trace := trace ?c @ destroy_events l i x\<rparr>"
    by (rule destroy_effect) (simp add: assms(1) signalled_def)
  have "Destroy_module l i st = Done () (destroy l i ?b)"
    by (rule Destroy_module_steps [OF r1 s r2 w])
  then show ?thesis
    by (simp only: b d) simp
qed

lemma Destroy_loop_effect:
  assumes step: "\<And>i st. i < length xs \<Longrightarrow> length (mods st) = length xs \<Longrightarrow>
              mods st ! i = before (xs ! i) \<Longrightarrow>
              Destroy_module l i st =
                Done () (st\<lparr>mods := (mods st)[i := after (xs ! i)],
                            trace := trace st @ ev i (xs ! i)\<rparr>)"
    and "distinct js" and "\<forall>i \<in> set js. i < length xs" and "length (mods st) = length xs"
    and "\<forall>i \<in> set js. mods st ! i = before (xs ! i)"
  shows "\<exists>st'. Destroy_loop l js st = Done () st' \<and> length (mods st') = length xs \<and>
           (\<forall>j < length xs. mods st' ! j = (if j \<in> set js then after (xs ! j) else mods st ! j)) \<and>
           trace st' = trace st @ concat (map (\<lambda>i. ev i (xs ! i)) js)"
  using assms(2-5)
proof (induction js arbitrary: st)
  case Nil
  then show ?case by simp
next
  case (Cons i js)
  let ?a = "st\<lparr>mods := (mods st)[i := after (xs ! i)], trace := trace st @ ev i (xs ! i)\<rparr>"
  have i: "i < length xs" "i \<notin> set js" "distinct js"
    using Cons.prems(1,2) by simp_all
  have m: "Destroy_module l i st = Done () ?a"
    using Cons.prems(3,4) i(1) by (intro step) simp_all
  have pre: "\<forall>j \<in> set js. j < length xs" "length (mods ?a) = length xs"
    "\<forall>j \<in> set js. mods ?a ! j = before (xs ! j)"
    using Cons.prems(2,3,4) i(2) by (auto simp: nth_list_update)
  from Cons.IH [OF i(3) pre] obtain st' where
    st': "Destroy_loop l js ?a = Done () st'" "length (mods st') = length xs"
      "\<forall>j < length xs. mods st' ! j = (if j \<in> set js then after (xs ! j) else mods ?a ! j)"
      "trace st' = trace ?a @ concat (map (\<lambda>i. ev i (xs ! i)) js)"
    by blast
  have "Destroy_loop l (i # js) st = Done () st'"
    using m st'(1) by (simp add: and_then_def)
  moreover have "\<forall>j < length xs. mods st' ! j =
      (if j \<in> set (i # js) then after (xs ! j) else mods st ! j)"
    using st'(3) Cons.prems(3) i(1) by (auto simp: nth_list_update)
  moreover have "trace st' = trace st @ concat (map (\<lambda>i. ev i (xs ! i)) (i # js))"
    using st'(4) by simp
  ultimately show ?case using st'(2) by blast
qed

lemma Destroy_started:
  assumes "mods st = map started xs" and "\<forall>x \<in> set xs. Run x \<noteq> NeverReturns"
  shows "\<exists>st'. Destroy l st = Done () st' \<and> mods st' = map stopped xs \<and>
           trace st' = trace st @
             concat (map (\<lambda>i. Run_returned i # destroy_events l i (xs ! i)) (rev [0..<length xs]))"
proof -
  have step: "Destroy_module l i s =
                Done () (s\<lparr>mods := (mods s)[i := stopped (xs ! i)],
                            trace := trace s @ Run_returned i # destroy_events l i (xs ! i)\<rparr>)"
    if "i < length xs" "length (mods s) = length xs" "mods s ! i = started (xs ! i)" for i s
    using that assms(2) by (intro Destroy_module_started) simp_all
  have "\<exists>st'. Destroy_loop l (rev [0..<length xs]) st = Done () st' \<and>
           length (mods st') = length xs \<and>
           (\<forall>j < length xs. mods st' ! j =
              (if j \<in> set (rev [0..<length xs]) then stopped (xs ! j) else mods st ! j)) \<and>
           trace st' = trace st @ concat (map (\<lambda>i. Run_returned i # destroy_events l i (xs ! i)) (rev [0..<length xs]))"
  proof (rule Destroy_loop_effect [where before = started and after = stopped
        and ev = "\<lambda>i x. Run_returned i # destroy_events l i x"])
    show "distinct (rev [0..<length xs])" by simp
    show "\<forall>i \<in> set (rev [0..<length xs]). i < length xs" by simp
    show "length (mods st) = length xs" using assms(1) by simp
    show "\<forall>i \<in> set (rev [0..<length xs]). mods st ! i = started (xs ! i)"
      using assms(1) by simp
  qed (rule step)
  then obtain st' where
    st': "Destroy_loop l (rev [0..<length xs]) st = Done () st'" "length (mods st') = length xs"
      "\<forall>j < length xs. mods st' ! j =
         (if j \<in> set (rev [0..<length xs]) then stopped (xs ! j) else mods st ! j)"
      "trace st' = trace st @ concat (map (\<lambda>i. Run_returned i # destroy_events l i (xs ! i)) (rev [0..<length xs]))"
    by blast
  have "mods st' = map stopped xs"
  proof (rule nth_equalityI)
    show "length (mods st') = length (map stopped xs)" using st'(2) by simp
  next
    fix j assume "j < length (mods st')"
    then have "j < length xs" using st'(2) by simp
    then show "mods st' ! j = map stopped xs ! j" using st'(3) by simp
  qed
  then show ?thesis
    using st'(1,4) assms(1) by (simp add: Destroy_def)
qed

lemma Destroy_stopped:
  assumes "mods st = map stopped xs" and "\<forall>x \<in> set xs. Run x = ReturnsOnClose"
  shows "\<exists>st'. Destroy l st = Done () st' \<and> mods st' = map signalled xs \<and>
           trace st' = trace st @
             concat (map (\<lambda>i. destroy_events l i (xs ! i)) (rev [0..<length xs]))"
proof -
  have step: "Destroy_module l i s =
                Done () (s\<lparr>mods := (mods s)[i := signalled (xs ! i)],
                            trace := trace s @ destroy_events l i (xs ! i)\<rparr>)"
    if "i < length xs" "length (mods s) = length xs" "mods s ! i = stopped (xs ! i)" for i s
    using that assms(2) by (intro Destroy_module_stopped) simp_all
  have "\<exists>st'. Destroy_loop l (rev [0..<length xs]) st = Done () st' \<and>
           length (mods st') = length xs \<and>
           (\<forall>j < length xs. mods st' ! j =
              (if j \<in> set (rev [0..<length xs]) then signalled (xs ! j) else mods st ! j)) \<and>
           trace st' = trace st @ concat (map (\<lambda>i. destroy_events l i (xs ! i)) (rev [0..<length xs]))"
  proof (rule Destroy_loop_effect [where before = stopped and after = signalled
        and ev = "\<lambda>i x. destroy_events l i x"])
    show "distinct (rev [0..<length xs])" by simp
    show "\<forall>i \<in> set (rev [0..<length xs]). i < length xs" by simp
    show "length (mods st) = length xs" using assms(1) by simp
    show "\<forall>i \<in> set (rev [0..<length xs]). mods st ! i = stopped (xs ! i)"
      using assms(1) by simp
  qed (rule step)
  then obtain st' where
    st': "Destroy_loop l (rev [0..<length xs]) st = Done () st'" "length (mods st') = length xs"
      "\<forall>j < length xs. mods st' ! j =
         (if j \<in> set (rev [0..<length xs]) then signalled (xs ! j) else mods st ! j)"
      "trace st' = trace st @ concat (map (\<lambda>i. destroy_events l i (xs ! i)) (rev [0..<length xs]))"
    by blast
  have "mods st' = map signalled xs"
  proof (rule nth_equalityI)
    show "length (mods st') = length (map signalled xs)" using st'(2) by simp
  next
    fix j assume "j < length (mods st')"
    then have "j < length xs" using st'(2) by simp
    then show "mods st' ! j = map signalled xs ! j" using st'(3) by simp
  qed
  then show ?thesis
    using st'(1,4) assms(1) by (simp add: Destroy_def)
qed


text \<open>C9, as amended. A second \<open>Destroy\<close> is not a no-op. After \<open>Init\<close> and a first
  \<open>Destroy\<close> of modules whose \<open>Run\<close> returns on the close signal, the close signals
  are empty; a second \<open>Destroy\<close> returns, has called every \<open>OnDestroy\<close> once more, in
  the reverse order of registration, and has left a value in every close signal.\<close>

theorem Destroy_twice:
  assumes "\<forall>x \<in> set xs. OnInit x = Return () \<and> Run x = ReturnsOnClose"
  shows "\<exists>st1 st2 st3. Init (Register_all xs empty_manager) = Done () st1 \<and>
           Destroy l st1 = Done () st2 \<and> Destroy l st2 = Done () st3 \<and>
           trace st3 = trace st2 @
             concat (map (\<lambda>i. destroy_events l i (xs ! i)) (rev [0..<length xs])) \<and>
           map (\<lambda>m. chan_buf (closeSig m)) (mods st2) = map (\<lambda>x. []) xs \<and>
           map (\<lambda>m. chan_buf (closeSig m)) (mods st3) = map (\<lambda>x. [True]) xs"
proof -
  have oi: "\<forall>x \<in> set xs. OnInit x = Return ()"
    and roc: "\<forall>x \<in> set xs. Run x = ReturnsOnClose"
    and nr: "\<forall>x \<in> set xs. Run x \<noteq> NeverReturns"
    using assms by auto
  from Init_registered [OF oi] obtain st1 where
    st1: "Init (Register_all xs empty_manager) = Done () st1" "mods st1 = map started xs"
    by blast
  from Destroy_started [OF st1(2) nr, of l] obtain st2 where
    st2: "Destroy l st1 = Done () st2" "mods st2 = map stopped xs"
    by blast
  from Destroy_stopped [OF st2(2) roc, of l] obtain st3 where
    st3: "Destroy l st2 = Done () st3" "mods st3 = map signalled xs"
    "trace st3 = trace st2 @
             concat (map (\<lambda>i. destroy_events l i (xs ! i)) (rev [0..<length xs]))"
    by blast
  have "map (\<lambda>m. chan_buf (closeSig m)) (mods st2) = map (\<lambda>x. []) xs"
    using roc by (simp add: st2(2) stopped_def)
  moreover have "map (\<lambda>m. chan_buf (closeSig m)) (mods st3) = map (\<lambda>x. [True]) xs"
    by (simp add: st3(2) signalled_def)
  ultimately show ?thesis
    using st1(1) st2(1) st3(1,3) by blast
qed



theorem Destroy_twice_witness:
  "OnInit module_ok = Return () \<and> Run module_ok = ReturnsOnClose \<and>
   OnInit module_bad = Return () \<and> Run module_bad = ReturnsOnClose \<and>
   (\<exists>st1 st2 st3. Init (Register_all [module_ok, module_bad] empty_manager) = Done () st1 \<and>
      Destroy 4096 st1 = Done () st2 \<and> Destroy 4096 st2 = Done () st3 \<and>
      trace st3 = trace st2 @
        [OnDestroy_called 1, Logged (PanicVal (VStr ''oops'')) True, OnDestroy_called 0] \<and>
      map (\<lambda>m. chan_buf (closeSig m)) (mods st2) = [[], []] \<and>
      map (\<lambda>m. chan_buf (closeSig m)) (mods st3) = [[True], [True]])"
proof -
  have h: "\<forall>x \<in> set [module_ok, module_bad]. OnInit x = Return () \<and> Run x = ReturnsOnClose"
    by (simp add: module_ok_def module_bad_def)
  have r: "rev [0..<length [module_ok, module_bad]] = [1, 0]"
    by (simp add: upt_rec)
  have t: "concat (map (\<lambda>i. destroy_events 4096 i ([module_ok, module_bad] ! i)) [1, 0]) =
        [OnDestroy_called 1, Logged (PanicVal (VStr ''oops'')) True, OnDestroy_called 0]"
    by (simp add: destroy_events_def module_ok_def module_bad_def)
  from Destroy_twice [OF h, of 4096] show ?thesis
    unfolding r t by (simp add: module_ok_def module_bad_def)
qed

text \<open>C9 as stated fails on a registry of one module: after \<open>Init\<close> and a first
  \<open>Destroy\<close>, a second \<open>Destroy\<close> calls the module's \<open>OnDestroy\<close> again and
  leaves a value in its close signal, which was empty.\<close>

theorem Destroy_again_counterexample:
  "returned (Init (Register_all [module_ok] empty_manager)) \<and>
   returned (Destroy 0 (state_of (Init (Register_all [module_ok] empty_manager)))) \<and>
   returned (Destroy 0 ex_destroyed) \<and>
   trace (state_of (Destroy 0 ex_destroyed)) = trace ex_destroyed @ [OnDestroy_called 0] \<and>
   map (\<lambda>m. chan_buf (closeSig m)) (mods ex_destroyed) = [[]] \<and>
   map (\<lambda>m. chan_buf (closeSig m)) (mods (state_of (Destroy 0 ex_destroyed))) = [[True]]"
proof -
  have oi: "\<forall>x \<in> set [module_ok]. OnInit x = Return ()"
    and roc: "\<forall>x \<in> set [module_ok]. Run x = ReturnsOnClose"
    and nr: "\<forall>x \<in> set [module_ok]. Run x \<noteq> NeverReturns"
    by (simp_all add: module_ok_def)
  from Init_registered [OF oi] obtain st1 where
    st1: "Init (Register_all [module_ok] empty_manager) = Done () st1" "mods st1 = map started [module_ok]"
    by blast
  from Destroy_started [OF st1(2) nr, of 0] obtain st2 where
    st2: "Destroy 0 st1 = Done () st2" "mods st2 = map stopped [module_ok]"
    by blast
  from Destroy_stopped [OF st2(2) roc, of 0] obtain st3 where
    st3: "Destroy 0 st2 = Done () st3" "mods st3 = map signalled [module_ok]"
    "trace st3 = trace st2 @
       concat (map (\<lambda>i. destroy_events 0 i ([module_ok] ! i)) (rev [0..<length [module_ok]]))"
    by blast
  have e: "ex_destroyed = st2"
    by (simp add: ex_destroyed_def st1(1) st2(1))
  have t: "concat (map (\<lambda>i. destroy_events 0 i ([module_ok] ! i)) (rev [0..<length [module_ok]]))
      = [OnDestroy_called 0]"
    by (simp add: destroy_events_def module_ok_def)
  have m2: "map (\<lambda>m. chan_buf (closeSig m)) (mods st2) = [[]]"
    by (simp add: st2(2) stopped_def module_ok_def)
  have m3: "map (\<lambda>m. chan_buf (closeSig m)) (mods st3) = [[True]]"
    by (simp add: st3(2) signalled_def)
  have d: "destroy_events 0 0 module_ok = [OnDestroy_called 0]"
    by (simp add: destroy_events_def module_ok_def)
  show ?thesis
    using st3(3) m2 m3 by (simp add: e st1(1) st2(1) st3(1) d)
qed

subsection \<open>The counter of outstanding asynchronous calls\<close>

























end
